theory Spec2Isabelle
  imports Main "HOL-Library.Sublist"
begin

section \<open>Data model of \<open>runIOS/index.js\<close>\<close>

text \<open>
  Strings are HOL strings: a \<open>char\<close> stands for one UTF-16 code unit below 256, which
  covers ASCII and Latin-1.  A command-line flag of type \<open>?(string | true)\<close> is a
  \<open>jsflag\<close>: absent, the bare flag (\<open>true\<close>), or a string.
\<close>

datatype jsflag = Undefined | JTrue | JString string

text \<open>JavaScript truthiness of a flag: \<open>undefined\<close> and the empty string are falsy.\<close>

fun truthy :: "jsflag \<Rightarrow> bool" where
  "truthy Undefined = False"
| "truthy JTrue = True"
| "truthy (JString s) = (s \<noteq> [])"

text \<open>\<open>s === v\<close> for a string \<open>s\<close>: strict equality never converts, so only a string can be equal.\<close>

fun strict_eq :: "string \<Rightarrow> jsflag \<Rightarrow> bool" where
  "strict_eq s (JString t) = (s = t)"
| "strict_eq s JTrue = False"
| "strict_eq s Undefined = False"

text \<open>\<open>${v}\<close> inside a template literal.\<close>

fun template :: "jsflag \<Rightarrow> string" where
  "template (JString s) = s"
| "template JTrue = ''true''"
| "template Undefined = ''undefined''"

fun template_opt :: "string option \<Rightarrow> string" where
  "template_opt (Some s) = s"
| "template_opt None = ''undefined''"

text \<open>
  An entry of the device list (\<open>{udid, name, version}\<close>); a simulator has the same fields
  and its boot state.  A missing \<open>version\<close> is \<open>None\<close> and prints as \<open>undefined\<close>.
\<close>

record device =
  name :: string
  udid :: string
  version :: "string option"

record simulator = device +
  booted :: bool

text \<open>\<open>xcodeProject\<close>, as \<open>findXcodeProject\<close> returns it.\<close>

record xcode_project =
  project_name :: string
  isWorkspace :: bool

text \<open>\<open>FlagsT\<close>, the parsed command line (\<open>args\<close>).\<close>

record flags =
  args_simulator :: string
  args_configuration :: string
  args_scheme :: "string option"
  args_projectPath :: string
  args_device :: jsflag
  args_udid :: jsflag
  args_packager :: bool
  args_verbose :: bool
  args_port :: int
  args_terminal :: "string option"

text \<open>A value that \<open>getProcessOptions\<close> puts into the environment of the build.\<close>

datatype envval = EnvString "string option" | EnvNumber int | EnvTrue

text \<open>
  What the run does, in order: log lines, the directory change and the external commands
  it starts (\<open>execFileSync\<close>, \<open>spawnSync\<close> and \<open>spawn\<close> with command and arguments,
  \<open>execSync\<close> with a command line, \<open>xcodebuild\<close> with its environment entries as well), and
  what it writes to the \<open>xcpretty\<close> filter.
\<close>

datatype action =
  LogInfo string
  | LogError string
  | Chdir string
  | Exec string "string list"
  | ExecShell string
  | SpawnBuild string "string list" "(string \<times> envval) list"
  | XcprettyWrite string
  | XcprettyEnd

text \<open>
  What can be thrown: a \<open>CLIError\<close> with its message and the optional original error, or
  whatever an external call throws.
\<close>

datatype error = CLIError string "string option" | Thrown string

text \<open>The object \<open>spawnSync\<close> returns: its \<open>error\<close> field and the exit status.\<close>

record spawn_result =
  spawn_error :: "string option"
  spawn_status :: "int option"

text \<open>
  The answers of the outside world during one run, one field per call site.  An
  \<open>execFileSync\<close> returns the standard output or throws (\<open>Inl\<close>); a \<open>spawnSync\<close> returns its
  result object or throws.  \<open>findXcodeProject\<close>, \<open>parseIOSDevicesList\<close>,
  \<open>findMatchingSimulator\<close> and Node's \<open>path.basename\<close> live outside this file: their results are
  fields too, and so is Node's \<open>path.join\<close>, a function of the two paths it joins and
  normalises.  The \<open>xcodebuild\<close> child is its chunks of standard output and standard error and
  the code of its \<open>close\<close> event (\<open>None\<close> is \<open>null\<close>, a child killed by a signal).
\<close>

record world =
  projectPathExists :: bool
  foundXcodeProject :: "xcode_project option"
  inferredSchemeName :: string
  pathJoin :: "string \<Rightarrow> string \<Rightarrow> string"
  listedDevices :: "error + device list"
  simulatorListParses :: bool
  matchedSimulator :: "simulator option"
  xcodeSelectOutput :: "error + string"
  openSimulatorApp :: "error + string"
  bootResult :: "error + spawn_result"
  xcprettyVersion :: "error + string"
  buildStdout :: "string list"
  buildStderr :: "string list"
  buildExitCode :: "int option"
  installResult :: "error + spawn_result"
  bundleIDOutput :: "error + string"
  launchResult :: "error + spawn_result"
  iosDeployResult :: "error + spawn_result"

text \<open>
  A step of the run yields the actions it performed and either the error it threw or its
  value.  \<open>io_bind\<close> runs the next step only after a value: a throw (or a rejected promise
  under \<open>await\<close>) skips everything that follows.
\<close>

type_synonym 'a io = "action list \<times> (error + 'a)"

definition io_return :: "'a \<Rightarrow> 'a io" where
  "io_return v = ([], Inr v)"

definition io_throw :: "error \<Rightarrow> 'a io" where
  "io_throw e = ([], Inl e)"

definition io_do :: "action \<Rightarrow> unit io" where
  "io_do a = ([a], Inr ())"

definition io_call :: "action \<Rightarrow> error + 'a \<Rightarrow> 'a io" where
  "io_call a r = ([a], r)"

definition io_bind :: "'a io \<Rightarrow> ('a \<Rightarrow> 'b io) \<Rightarrow> 'b io" where
  "io_bind m f =
     (case m of
        (t, Inl e) \<Rightarrow> (t, Inl e)
      | (t, Inr v) \<Rightarrow> (case f v of (t', r) \<Rightarrow> (t @ t', r)))"

text \<open>\<open>try { m } catch (_ignored) { }\<close>: whatever \<open>m\<close> throws is dropped.\<close>

definition io_try_ignore :: "'a io \<Rightarrow> unit io" where
  "io_try_ignore m = (fst m, Inr ())"

text \<open>\<open>a || b\<close> on strings: \<open>null\<close>, \<open>undefined\<close> and the empty string are falsy.\<close>

definition js_or :: "string option \<Rightarrow> string \<Rightarrow> string" where
  "js_or a b = (case a of None \<Rightarrow> b | Some s \<Rightarrow> if s = [] then b else s)"

text \<open>\<open>xs.join(sep)\<close>.\<close>

fun join :: "string \<Rightarrow> string list \<Rightarrow> string" where
  "join sep [] = []"
| "join sep [x] = x"
| "join sep (x # y # ys) = x @ sep @ join sep (y # ys)"

text \<open>
  A number inside a template literal.  Exit codes are integers: the decimal digits, after a
  minus sign below zero; \<open>null\<close> prints as \<open>null\<close>.
\<close>

definition digit_char :: "nat \<Rightarrow> char" where
  "digit_char d = ''0123456789'' ! d"

function decimal :: "nat \<Rightarrow> string" where
  "decimal n = (if 10 \<le> n then decimal (n div 10) @ [digit_char (n mod 10)] else [digit_char n])"
  by pat_completeness auto
termination
  by (relation "measure id") auto

declare decimal.simps [simp del]

definition number_to_string :: "int \<Rightarrow> string" where
  "number_to_string i = (if 0 \<le> i then decimal (nat i) else CHR ''-'' # decimal (nat (- i)))"

fun template_code :: "int option \<Rightarrow> string" where
  "template_code None = ''null''"
| "template_code (Some i) = number_to_string i"

text \<open>
  \<open>s.trim()\<close>: white space and line terminators removed at both ends (below 256 these are
  code units 9 to 13, 32 and 160).
\<close>

definition is_js_whitespace :: "char \<Rightarrow> bool" where
  "is_js_whitespace c =
     (let n = (of_char c :: nat) in (9 \<le> n \<and> n \<le> 13) \<or> n = 32 \<or> n = 160)"

definition trim :: "string \<Rightarrow> string" where
  "trim s = rev (dropWhile is_js_whitespace (rev (dropWhile is_js_whitespace s)))"

section \<open>Target matching\<close>

text \<open>\<open>formattedDeviceName\<close>: \<open>`${simulator.name} (${simulator.version})`\<close>.\<close>

definition formattedDeviceName :: "'a device_scheme \<Rightarrow> string" where
  "formattedDeviceName simulator = name simulator @ '' ('' @ template_opt (version simulator) @ '')''"

text \<open>
  The loop \<open>for (let i = devices.length - 1; i >= 0; i--)\<close> of \<open>matchingDeviceByUdid\<close>.
  The last argument counts the entries still to visit, \<open>i + 1\<close>: it starts at
  \<open>devices.length\<close>, the step at \<open>Suc i\<close> reads \<open>devices[i]\<close>, and the loop ends at 0.
\<close>

fun matchingDeviceByUdid_loop :: "device list \<Rightarrow> jsflag \<Rightarrow> nat \<Rightarrow> device option" where
  "matchingDeviceByUdid_loop devices u 0 = None"
| "matchingDeviceByUdid_loop devices u (Suc i) =
     (if strict_eq (udid (devices ! i)) u then Some (devices ! i)
      else matchingDeviceByUdid_loop devices u i)"

definition matchingDeviceByUdid :: "device list \<Rightarrow> jsflag \<Rightarrow> device option" where
  "matchingDeviceByUdid devices u = matchingDeviceByUdid_loop devices u (length devices)"

text \<open>The loop of \<open>matchingDevice\<close>, same counter.\<close>

fun matchingDevice_loop :: "device list \<Rightarrow> jsflag \<Rightarrow> nat \<Rightarrow> device option" where
  "matchingDevice_loop devices deviceName 0 = None"
| "matchingDevice_loop devices deviceName (Suc i) =
     (if strict_eq (name (devices ! i)) deviceName
         \<or> strict_eq (formattedDeviceName (devices ! i)) deviceName
      then Some (devices ! i)
      else matchingDevice_loop devices deviceName i)"

text \<open>
  \<open>matchingDevice\<close> returns the log lines it wrote and the device (\<open>None\<close> is \<open>null\<close>).
  \<open>devices[0]\<close> is read only when the list has one element.
\<close>

definition matchingDevice :: "device list \<Rightarrow> jsflag \<Rightarrow> action list \<times> device option" where
  "matchingDevice devices deviceName =
     (if deviceName = JTrue \<and> length devices = 1 then
        ([LogInfo (''Using first available device '' @ name (devices ! 0)
                @ '' due to lack of name supplied.'')],
         Some (devices ! 0))
      else ([], matchingDevice_loop devices deviceName (length devices)))"

text \<open>\<open>printFoundDevices\<close>: the same reverse loop, appending one line per device.\<close>

fun printFoundDevices_loop :: "device list \<Rightarrow> string \<Rightarrow> nat \<Rightarrow> string" where
  "printFoundDevices_loop devices output 0 = output"
| "printFoundDevices_loop devices output (Suc i) =
     printFoundDevices_loop devices
       (output @ name (devices ! i) @ '' Udid: '' @ udid (devices ! i) @ ''\<newline>'') i"

definition printFoundDevices :: "device list \<Rightarrow> string" where
  "printFoundDevices devices = printFoundDevices_loop devices [] (length devices)"

section \<open>Build path\<close>

text \<open>
  \<open>String.prototype.toLowerCase\<close> on code units below 256: the ASCII capitals and the
  Latin-1 capitals (U+00C0 to U+00DE, without the multiplication sign U+00D7) move up by 32.
\<close>

definition toLowerCase_char :: "char \<Rightarrow> char" where
  "toLowerCase_char c =
     (let n = (of_char c :: nat) in
      if (65 \<le> n \<and> n \<le> 90) \<or> (192 \<le> n \<and> n \<le> 222 \<and> n \<noteq> 215) then char_of (n + 32) else c)"

definition toLowerCase :: "string \<Rightarrow> string" where
  "toLowerCase s = map toLowerCase_char s"

text \<open>\<open>s.includes(sub)\<close>: \<open>sub\<close> occurs in \<open>s\<close> at some position.\<close>

fun includes_str :: "string \<Rightarrow> string \<Rightarrow> bool" where
  "includes_str [] sub = (sub = [])"
| "includes_str (c # cs) sub = (prefix sub (c # cs) \<or> includes_str cs sub)"

definition getBuildPath :: "string \<Rightarrow> string \<Rightarrow> bool \<Rightarrow> string \<Rightarrow> string" where
  "getBuildPath configuration appName isDevice scheme =
     (let device =
        (if isDevice then ''iphoneos''
         else if includes_str (toLowerCase appName) ''tvos'' then ''appletvsimulator''
         else ''iphonesimulator'')
      in ''build/'' @ scheme @ ''/Build/Products/'' @ configuration @ ''-'' @ device @ ''/''
           @ appName @ ''.app'')"

section \<open>Artifact name\<close>

text \<open>
  The pattern of \<open>getProductName\<close> is \<open>/export FULL_PRODUCT_NAME="?(.+).app"?$/m\<close>.  Its pieces,
  matched by backtracking in the order the engine tries them:
  \<^item> the literal \<open>export FULL_PRODUCT_NAME=\<close>;
  \<^item> \<open>"?\<close>, greedy: with the quote first, without it second;
  \<^item> group 1, \<open>(.+)\<close>, greedy: the longest run first, then shorter ones, never empty;
  \<^item> \<open>.\<close> (the dot is not escaped: any one character), then \<open>app\<close>;
  \<^item> \<open>"?\<close>, greedy, and \<open>$\<close>, which under the flag \<open>m\<close> holds at the end of the text and
    before a line terminator.
  A dot matches every character but a line terminator; below 256 these are line feed and
  carriage return.
\<close>

definition is_line_terminator :: "char \<Rightarrow> bool" where
  "is_line_terminator c = (c = CHR 0x0A \<or> c = CHR 0x0D)"

fun strip_prefix :: "string \<Rightarrow> string \<Rightarrow> string option" where
  "strip_prefix [] s = Some s"
| "strip_prefix (p # ps) [] = None"
| "strip_prefix (p # ps) (c # cs) = (if p = c then strip_prefix ps cs else None)"

text \<open>\<open>$\<close> with the flag \<open>m\<close>.\<close>

definition at_line_end :: "string \<Rightarrow> bool" where
  "at_line_end r = (case r of [] \<Rightarrow> True | c # _ \<Rightarrow> is_line_terminator c)"

text \<open>\<open>"?$\<close>.\<close>

definition match_quote_end :: "string \<Rightarrow> bool" where
  "match_quote_end r =
     (case r of
        [] \<Rightarrow> at_line_end r
      | c # r' \<Rightarrow> (c = CHR 0x22 \<and> at_line_end r') \<or> at_line_end r)"

text \<open>\<open>.app"?$\<close>.\<close>

definition match_tail :: "string \<Rightarrow> bool" where
  "match_tail r =
     (case r of
        [] \<Rightarrow> False
      | c # r1 \<Rightarrow>
          \<not> is_line_terminator c \<and>
          (case strip_prefix ''app'' r1 of None \<Rightarrow> False | Some r2 \<Rightarrow> match_quote_end r2))"

text \<open>
  \<open>(.+).app"?$\<close> with the group taking \<open>k\<close> characters, then \<open>k - 1\<close>, down to one; the
  result is the text of the group.
\<close>

fun match_group :: "string \<Rightarrow> nat \<Rightarrow> string option" where
  "match_group r 0 = None"
| "match_group r (Suc k) =
     (if match_tail (drop (Suc k) r) then Some (take (Suc k) r) else match_group r k)"

definition match_group_greedy :: "string \<Rightarrow> string option" where
  "match_group_greedy r =
     match_group r (length (takeWhile (\<lambda>c. \<not> is_line_terminator c) r))"

text \<open>\<open>"?(.+).app"?$\<close>.\<close>

definition match_after_literal :: "string \<Rightarrow> string option" where
  "match_after_literal r =
     (case r of
        [] \<Rightarrow> match_group_greedy r
      | c # r' \<Rightarrow>
          if c = CHR 0x22 then
            (case match_group_greedy r' of Some g \<Rightarrow> Some g | None \<Rightarrow> match_group_greedy r)
          else match_group_greedy r)"

text \<open>The whole pattern at the start of \<open>s\<close>.\<close>

definition match_here :: "string \<Rightarrow> string option" where
  "match_here s =
     (case strip_prefix ''export FULL_PRODUCT_NAME='' s of
        None \<Rightarrow> None
      | Some r \<Rightarrow> match_after_literal r)"

text \<open>
  \<open>exec\<close> without the flags \<open>g\<close> and \<open>y\<close> starts at index 0 and tries every index in turn;
  the result is the index of the match and the text of group 1.
\<close>

fun regexp_exec :: "string \<Rightarrow> nat \<Rightarrow> (nat \<times> string) option" where
  "regexp_exec [] i = (case match_here [] of None \<Rightarrow> None | Some g \<Rightarrow> Some (i, g))"
| "regexp_exec (c # cs) i =
     (case match_here (c # cs) of None \<Rightarrow> regexp_exec cs (Suc i) | Some g \<Rightarrow> Some (i, g))"

definition getProductName :: "string \<Rightarrow> string option" where
  "getProductName buildOutput =
     (case regexp_exec buildOutput 0 of None \<Rightarrow> None | Some productNameMatch \<Rightarrow> Some (snd productNameMatch))"



section \<open>Building\<close>

text \<open>\<open>xcprettyAvailable\<close>: whether \<open>xcpretty --version\<close> ran without throwing.\<close>

definition xcprettyAvailable :: "world \<Rightarrow> bool io" where
  "xcprettyAvailable w =
     ([ExecShell ''xcpretty --version''],
      Inr (case xcprettyVersion w of Inl error \<Rightarrow> False | Inr _ \<Rightarrow> True))"

text \<open>\<open>getProcessOptions\<close>: the entries put on top of a copy of \<open>process.env\<close>.\<close>

definition getProcessOptions :: "flags \<Rightarrow> (string \<times> envval) list" where
  "getProcessOptions args =
     (if args_packager args then
        [(''RCT_TERMINAL'', EnvString (args_terminal args)),
         (''RCT_METRO_PORT'', EnvNumber (args_port args))]
      else
        [(''RCT_TERMINAL'', EnvString (args_terminal args)),
         (''RCT_NO_LAUNCH_PACKAGER'', EnvTrue)])"

text \<open>The message of the error a failed build rejects with.\<close>

definition buildFailedMessage :: "int option \<Rightarrow> xcode_project \<Rightarrow> string" where
  "buildFailedMessage code xcodeProject =
     ''\<newline>            Failed to build iOS project.\<newline>\<newline>''
     @ ''            We ran \"xcodebuild\" command but it exited with error code ''
     @ template_code code @ ''. To debug build\<newline>''
     @ ''            logs further, consider building your app with Xcode.app, by opening\<newline>''
     @ ''            '' @ project_name xcodeProject @ ''.\<newline>          ''"

text \<open>
  The \<open>data\<close> handler of the standard output, once per chunk: the chunk goes to the filter
  when there is one, to the log otherwise.
\<close>

definition onStdoutData :: "bool \<Rightarrow> string \<Rightarrow> action" where
  "onStdoutData xcpretty data = (if xcpretty then XcprettyWrite data else LogInfo data)"

text \<open>
  \<open>buildProject\<close>.  The promise it returns is its result here: \<open>Inl\<close> when rejected, \<open>Inr\<close>
  with the artifact name when resolved.  \<open>buildOutput\<close> and \<open>errorOutput\<close> grow by one chunk
  per \<open>data\<close> event; the \<open>close\<close> handler decides.
\<close>

definition buildProject :: "world \<Rightarrow> xcode_project \<Rightarrow> string \<Rightarrow> string \<Rightarrow> flags \<Rightarrow> string io" where
  "buildProject w xcodeProject udid' scheme args =
     (let xcodebuildArgs =
        [if isWorkspace xcodeProject then ''-workspace'' else ''-project'',
         project_name xcodeProject,
         ''-configuration'', args_configuration args,
         ''-scheme'', scheme,
         ''-destination'', ''id='' @ udid',
         ''-derivedDataPath'', ''build/'' @ scheme]
      in
      io_bind (io_do (LogInfo (''Building using \"xcodebuild '' @ join '' '' xcodebuildArgs @ ''\"''))) (\<lambda>_.
      io_bind (if \<not> args_verbose args then
                 io_bind (xcprettyAvailable w) (\<lambda>available.
                   if available then io_bind (io_do (Exec ''xcpretty'' [])) (\<lambda>_. io_return True)
                   else io_return False)
               else io_return False) (\<lambda>xcpretty.
      io_bind (io_do (SpawnBuild ''xcodebuild'' xcodebuildArgs (getProcessOptions args))) (\<lambda>_.
      let buildOutput = foldl (\<lambda>acc data. acc @ data) [] (buildStdout w);
          errorOutput = foldl (\<lambda>acc data. acc @ data) [] (buildStderr w);
          code = buildExitCode w
      in
      io_bind (map (onStdoutData xcpretty) (buildStdout w), Inr ()) (\<lambda>_.
      io_bind (if xcpretty then io_do XcprettyEnd else io_return ()) (\<lambda>_.
      if code \<noteq> Some 0 then
        io_throw (CLIError (buildFailedMessage code xcodeProject) (Some errorOutput))
      else io_return (js_or (getProductName buildOutput) scheme)))))))"

section \<open>Install and launch\<close>

text \<open>\<open>bootSimulator\<close>: the \<open>spawnSync\<close> stands inside \<open>try\<close> with an empty \<open>catch\<close>, and its result is not read.\<close>

definition bootSimulator :: "world \<Rightarrow> simulator \<Rightarrow> unit io" where
  "bootSimulator w selectedSimulator =
     (let simulatorFullName = formattedDeviceName selectedSimulator in
      io_bind (io_do (LogInfo (''Launching '' @ simulatorFullName @ ''...''))) (\<lambda>_.
      io_try_ignore
        (io_call (Exec ''xcrun'' [''instruments'', ''-w'', udid selectedSimulator]) (bootResult w))))"

definition runOnSimulator :: "world \<Rightarrow> xcode_project \<Rightarrow> string \<Rightarrow> flags \<Rightarrow> unit io" where
  "runOnSimulator w xcodeProject scheme args =
     io_bind (io_call (Exec ''xcrun'' [''simctl'', ''list'', ''--json'', ''devices''])
                (if simulatorListParses w then Inr ()
                 else Inl (CLIError ''Could not parse the simulator list output'' None))) (\<lambda>_.
     case matchedSimulator w of
       None \<Rightarrow> io_throw (CLIError (''Could not find '' @ args_simulator args @ '' simulator'') None)
     | Some selectedSimulator \<Rightarrow>
     io_bind (io_call (Exec ''xcode-select'' [''-p'']) (xcodeSelectOutput w)) (\<lambda>out.
     let activeDeveloperDir = trim out in
     io_bind (io_call (Exec ''open''
                [activeDeveloperDir @ ''/Applications/Simulator.app'', ''--args'',
                 ''-CurrentDeviceUDID'', udid selectedSimulator])
                (openSimulatorApp w)) (\<lambda>_.
     io_bind (if \<not> booted selectedSimulator then bootSimulator w selectedSimulator
              else io_return ()) (\<lambda>_.
     io_bind (buildProject w xcodeProject (udid selectedSimulator) scheme args) (\<lambda>appName.
     let appPath = getBuildPath (args_configuration args) appName False scheme in
     io_bind (io_do (LogInfo (''Installing '' @ appPath))) (\<lambda>_.
     io_bind (io_call (Exec ''xcrun'' [''simctl'', ''install'', udid selectedSimulator, appPath])
                (installResult w)) (\<lambda>_.
     io_bind (io_call (Exec ''/usr/libexec/PlistBuddy''
                [''-c'', ''Print:CFBundleIdentifier'', pathJoin w appPath ''Info.plist''])
                (bundleIDOutput w)) (\<lambda>out.
     let bundleID = trim out in
     io_bind (io_do (LogInfo (''Launching '' @ bundleID))) (\<lambda>_.
     io_bind (io_call (Exec ''xcrun'' [''simctl'', ''launch'', udid selectedSimulator, bundleID])
                (launchResult w)) (\<lambda>_.
     io_return ()))))))))))"

definition runOnDevice :: "world \<Rightarrow> device \<Rightarrow> string \<Rightarrow> xcode_project \<Rightarrow> flags \<Rightarrow> unit io" where
  "runOnDevice w selectedDevice scheme xcodeProject args =
     io_bind (buildProject w xcodeProject (udid selectedDevice) scheme args) (\<lambda>appName.
     let iosDeployInstallArgs =
       [''--bundle'', getBuildPath (args_configuration args) appName True scheme,
        ''--id'', udid selectedDevice, ''--justlaunch'']
     in
     io_bind (io_do (LogInfo (''Installing and launching your app on '' @ name selectedDevice @ ''...''))) (\<lambda>_.
     io_bind (io_call (Exec ''ios-deploy'' iosDeployInstallArgs) (iosDeployResult w)) (\<lambda>iosDeployOutput.
     if spawn_error iosDeployOutput \<noteq> None then
       io_do (LogError
         (''** INSTALLATION FAILED **\<newline>Make sure you have ios-deploy installed globally.\<newline>''
          @ ''(e.g \"npm install -g ios-deploy\")''))
     else io_do (LogInfo ''** INSTALLATION SUCCEEDED **''))))"

section \<open>The command\<close>

definition deviceNotFoundMessage :: "string \<Rightarrow> jsflag \<Rightarrow> device list \<Rightarrow> string" where
  "deviceNotFoundMessage kind selector devices =
     ''Could not find device with the '' @ kind @ '': \"'' @ template selector
     @ ''\". Choose one of the following:\<newline>'' @ printFoundDevices devices"

definition runIOS :: "world \<Rightarrow> flags \<Rightarrow> unit io" where
  "runIOS w args =
     (if \<not> projectPathExists w then
        io_throw (CLIError
          ''iOS project folder not found. Are you sure this is a React Native project?'' None)
      else
      io_bind (io_do (Chdir (args_projectPath args))) (\<lambda>_.
      case foundXcodeProject w of
        None \<Rightarrow>
          io_throw (CLIError
            (''Could not find Xcode project files in \"'' @ args_projectPath args @ ''\" folder'') None)
      | Some xcodeProject \<Rightarrow>
      let scheme = js_or (args_scheme args) (inferredSchemeName w) in
      io_bind (io_do (LogInfo
        (''Found Xcode '' @ (if isWorkspace xcodeProject then ''workspace'' else ''project'')
         @ '' '' @ project_name xcodeProject))) (\<lambda>_.
      io_bind (io_call (Exec ''xcrun'' [''instruments'', ''-s'']) (listedDevices w)) (\<lambda>devices.
      let device' = args_device args; udid' = args_udid args in
      if truthy device' \<or> truthy udid' then
        io_bind (if truthy device' then (case matchingDevice devices device' of (t, d) \<Rightarrow> (t, Inr d))
                 else io_return (matchingDeviceByUdid devices udid')) (\<lambda>selectedDevice.
        case selectedDevice of
          Some d \<Rightarrow> runOnDevice w d scheme xcodeProject args
        | None \<Rightarrow>
            if length devices > 0 then
              io_do (LogError
                (if truthy device' then deviceNotFoundMessage ''name'' device' devices
                 else deviceNotFoundMessage ''udid'' udid' devices))
            else io_do (LogError ''No iOS devices connected.''))
      else runOnSimulator w xcodeProject scheme args))))"

section \<open>Reading a trace\<close>

text \<open>The build step: the start of \<open>xcodebuild\<close>.\<close>

definition is_build_step :: "action \<Rightarrow> bool" where
  "is_build_step a = (case a of SpawnBuild cmd _ _ \<Rightarrow> cmd = ''xcodebuild'' | _ \<Rightarrow> False)"

text \<open>
  The steps after the build: \<open>simctl install\<close>, the read of the bundle identifier,
  \<open>simctl launch\<close>, and \<open>ios-deploy\<close>.
\<close>

definition is_post_build_step :: "action \<Rightarrow> bool" where
  "is_post_build_step a =
     (case a of
        Exec cmd args \<Rightarrow>
          cmd = ''ios-deploy'' \<or> cmd = ''/usr/libexec/PlistBuddy''
          \<or> (cmd = ''xcrun'' \<and> (take 2 args = [''simctl'', ''install'']
                                   \<or> take 2 args = [''simctl'', ''launch'']))
      | _ \<Rightarrow> False)"

text \<open>A line of the error log.\<close>

definition is_error_log :: "action \<Rightarrow> bool" where
  "is_error_log a = (case a of LogError _ \<Rightarrow> True | _ \<Rightarrow> False)"

text \<open>A \<open>spawnSync\<close> result that reports a failed child: it could not be started, or it did not exit with 0.\<close>

definition spawn_failed :: "spawn_result \<Rightarrow> bool" where
  "spawn_failed r = (spawn_error r \<noteq> None \<or> spawn_status r \<noteq> Some 0)"

section \<open>An example run\<close>

text \<open>
  A project \<open>MyApp.xcworkspace\<close>, one connected device, one simulator that is shut down, a
  build that succeeds and names its product, and tools that all succeed.  Its paths have no
  empty, \<open>.\<close> or \<open>..\<close> segment, so joining them puts a slash in between.  The concrete
  instances below vary it field by field.
\<close>

definition example_project :: xcode_project where
  "example_project = \<lparr>project_name = ''MyApp.xcworkspace'', isWorkspace = True\<rparr>"

definition example_device :: device where
  "example_device = \<lparr>name = ''Max'', udid = ''U1'', version = Some ''12.0''\<rparr>"

definition example_simulator :: simulator where
  "example_simulator =
     \<lparr>name = ''iPhone X'', udid = ''S1'', version = Some ''12.1'', booted = False\<rparr>"

definition spawn_ok :: spawn_result where
  "spawn_ok = \<lparr>spawn_error = None, spawn_status = Some 0\<rparr>"

definition example_world :: world where
  "example_world =
     \<lparr>projectPathExists = True,
      foundXcodeProject = Some example_project,
      inferredSchemeName = ''MyApp'',
      pathJoin = (\<lambda>a b. a @ ''/'' @ b),
      listedDevices = Inr [example_device],
      simulatorListParses = True,
      matchedSimulator = Some example_simulator,
      xcodeSelectOutput = Inr ''/Applications/Xcode.app/Contents/Developer\<newline>'',
      openSimulatorApp = Inr [],
      bootResult = Inr \<lparr>spawn_error = None, spawn_status = Some 255\<rparr>,
      xcprettyVersion = Inl (Thrown ''xcpretty: command not found''),
      buildStdout = [''Build settings\<newline>    export FULL_PRODUCT'', ''_NAME=MyApp.app\<newline>''],
      buildStderr = [''warning: '', ''unused variable\<newline>''],
      buildExitCode = Some 0,
      installResult = Inr spawn_ok,
      bundleIDOutput = Inr ''org.example.MyApp\<newline>'',
      launchResult = Inr spawn_ok,
      iosDeployResult = Inr spawn_ok\<rparr>"

definition example_flags :: flags where
  "example_flags =
     \<lparr>args_simulator = ''iPhone X'', args_configuration = ''Debug'', args_scheme = None,
      args_projectPath = ''ios'', args_device = Undefined, args_udid = Undefined,
      args_packager = True, args_verbose = True, args_port = 8081, args_terminal = None\<rparr>"

section \<open>Properties of target matching\<close>

lemma find_rev_Some_iff:
  "find P (rev xs) = Some d \<longleftrightarrow>
     (\<exists>i < length xs. xs ! i = d \<and> P d \<and> (\<forall>j. i < j \<and> j < length xs \<longrightarrow> \<not> P (xs ! j)))"
proof (induction xs rule: rev_induct)
  case Nil
  then show ?case by simp
next
  case (snoc x xs)
  show ?case
  proof (cases "P x")
    case True
    have "(\<exists>i < length (xs @ [x]). (xs @ [x]) ! i = d \<and> P d \<and>
            (\<forall>j. i < j \<and> j < length (xs @ [x]) \<longrightarrow> \<not> P ((xs @ [x]) ! j))) \<longleftrightarrow> x = d"
    proof
      assume "\<exists>i < length (xs @ [x]). (xs @ [x]) ! i = d \<and> P d \<and>
            (\<forall>j. i < j \<and> j < length (xs @ [x]) \<longrightarrow> \<not> P ((xs @ [x]) ! j))"
      then obtain i where i: "i < length (xs @ [x])" "(xs @ [x]) ! i = d"
        "\<forall>j. i < j \<and> j < length (xs @ [x]) \<longrightarrow> \<not> P ((xs @ [x]) ! j)" by blast
      have "i = length xs"
      proof (rule ccontr)
        assume "i \<noteq> length xs"
        with i(1) have "i < length xs" by simp
        with i(3) have "\<not> P ((xs @ [x]) ! length xs)" by auto
        with True show False by simp
      qed
      with i(2) show "x = d" by simp
    next
      assume "x = d"
      with True show "\<exists>i < length (xs @ [x]). (xs @ [x]) ! i = d \<and> P d \<and>
            (\<forall>j. i < j \<and> j < length (xs @ [x]) \<longrightarrow> \<not> P ((xs @ [x]) ! j))"
        by (intro exI[of _ "length xs"]) auto
    qed
    with True show ?thesis by simp
  next
    case False
    have "(\<exists>i < length (xs @ [x]). (xs @ [x]) ! i = d \<and> P d \<and>
            (\<forall>j. i < j \<and> j < length (xs @ [x]) \<longrightarrow> \<not> P ((xs @ [x]) ! j))) \<longleftrightarrow>
          (\<exists>i < length xs. xs ! i = d \<and> P d \<and> (\<forall>j. i < j \<and> j < length xs \<longrightarrow> \<not> P (xs ! j)))"
      (is "?L \<longleftrightarrow> ?R")
    proof
      assume ?L
      then obtain i where i: "i < length (xs @ [x])" "(xs @ [x]) ! i = d" "P d"
        "\<forall>j. i < j \<and> j < length (xs @ [x]) \<longrightarrow> \<not> P ((xs @ [x]) ! j)" by blast
      have il: "i < length xs"
      proof (rule ccontr)
        assume "\<not> i < length xs"
        with i(1) have "i = length xs" by simp
        with i(2) i(3) False show False by simp
      qed
      have "\<forall>j. i < j \<and> j < length xs \<longrightarrow> \<not> P (xs ! j)"
      proof (intro allI impI)
        fix j assume j: "i < j \<and> j < length xs"
        with i(4) have "\<not> P ((xs @ [x]) ! j)" by simp
        with j show "\<not> P (xs ! j)" by (simp add: nth_append)
      qed
      with il i(2) i(3) show ?R by (auto simp: nth_append)
    next
      assume ?R
      then obtain i where i: "i < length xs" "xs ! i = d" "P d"
        "\<forall>j. i < j \<and> j < length xs \<longrightarrow> \<not> P (xs ! j)" by blast
      have "\<forall>j. i < j \<and> j < length (xs @ [x]) \<longrightarrow> \<not> P ((xs @ [x]) ! j)"
      proof (intro allI impI)
        fix j assume j: "i < j \<and> j < length (xs @ [x])"
        show "\<not> P ((xs @ [x]) ! j)"
        proof (cases "j < length xs")
          case True
          with i(4) j show ?thesis by (simp add: nth_append)
        next
          case False
          with j have "j = length xs" by simp
          with \<open>\<not> P x\<close> show ?thesis by simp
        qed
      qed
      with i(1,2,3) show ?L by (intro exI[of _ i]) (simp add: nth_append)
    qed
    with False snoc.IH show ?thesis by simp
  qed
qed

lemma find_rev_None_iff: "find P (rev xs) = None \<longleftrightarrow> (\<forall>d \<in> set xs. \<not> P d)"
  by (auto simp: find_None_iff)

lemma matchingDeviceByUdid_loop_find:
  "n \<le> length devices \<Longrightarrow>
   matchingDeviceByUdid_loop devices u n = find (\<lambda>d. strict_eq (udid d) u) (rev (take n devices))"
  by (induction n) (simp_all add: take_Suc_conv_app_nth)

lemma matchingDevice_loop_find:
  "n \<le> length devices \<Longrightarrow>
   matchingDevice_loop devices v n =
     find (\<lambda>d. strict_eq (name d) v \<or> strict_eq (formattedDeviceName d) v) (rev (take n devices))"
  by (induction n) (simp_all add: take_Suc_conv_app_nth)

lemma matchingDevice_loop_JTrue: "matchingDevice_loop devices JTrue n = None"
  by (induction n) simp_all

lemma printFoundDevices_loop_eq:
  "n \<le> length devices \<Longrightarrow>
   printFoundDevices_loop devices out n =
     out @ concat (map (\<lambda>d. name d @ '' Udid: '' @ udid d @ ''\<newline>'') (rev (take n devices)))"
  by (induction n arbitrary: out) (simp_all add: take_Suc_conv_app_nth)

text \<open>
  Claim C1.  With a string selector, \<open>matchingDeviceByUdid\<close> scans the list from its last
  entry to its first and compares identifiers exactly: it returns the device at the greatest
  index whose \<open>udid\<close> equals the selector, and \<open>null\<close> exactly when no device has that
  \<open>udid\<close>.  This holds for every list, the empty one included.
\<close>

theorem matchingDeviceByUdid_last_match:
  "matchingDeviceByUdid devices (JString u) = find (\<lambda>d. udid d = u) (rev devices)
   \<and> (\<forall>d. matchingDeviceByUdid devices (JString u) = Some d \<longleftrightarrow>
          (\<exists>i < length devices. devices ! i = d \<and> udid d = u
             \<and> (\<forall>j. i < j \<and> j < length devices \<longrightarrow> udid (devices ! j) \<noteq> u)))
   \<and> (matchingDeviceByUdid devices (JString u) = None \<longleftrightarrow> (\<forall>d \<in> set devices. udid d \<noteq> u))"
proof -
  have eq: "matchingDeviceByUdid devices (JString u) = find (\<lambda>d. udid d = u) (rev devices)"
    by (simp add: matchingDeviceByUdid_def matchingDeviceByUdid_loop_find)
  show ?thesis
    unfolding eq by (simp add: find_rev_Some_iff find_rev_None_iff)
qed

theorem matchingDeviceByUdid_last_match_witness:
  "matchingDeviceByUdid
     [\<lparr>name = ''A'', udid = ''U1'', version = Some ''12.0''\<rparr>,
      \<lparr>name = ''B'', udid = ''U1'', version = Some ''13.0''\<rparr>,
      \<lparr>name = ''C'', udid = ''U2'', version = None\<rparr>] (JString ''U1'')
     = Some \<lparr>name = ''B'', udid = ''U1'', version = Some ''13.0''\<rparr>
   \<and> matchingDeviceByUdid
     [\<lparr>name = ''A'', udid = ''U1'', version = Some ''12.0''\<rparr>,
      \<lparr>name = ''B'', udid = ''U1'', version = Some ''13.0''\<rparr>,
      \<lparr>name = ''C'', udid = ''U2'', version = None\<rparr>] (JString ''U3'') = None"
  using matchingDeviceByUdid_last_match
    [of "[\<lparr>name = ''A'', udid = ''U1'', version = Some ''12.0''\<rparr>,
      \<lparr>name = ''B'', udid = ''U1'', version = Some ''13.0''\<rparr>,
      \<lparr>name = ''C'', udid = ''U2'', version = None\<rparr>]" "''U1''"]
    matchingDeviceByUdid_last_match
    [of "[\<lparr>name = ''A'', udid = ''U1'', version = Some ''12.0''\<rparr>,
      \<lparr>name = ''B'', udid = ''U1'', version = Some ''13.0''\<rparr>,
      \<lparr>name = ''C'', udid = ''U2'', version = None\<rparr>]" "''U3''"]
  by simp

text \<open>
  Claim C2.  With a literal name, \<open>matchingDevice\<close> logs nothing and returns the device at
  the greatest index whose \<open>name\<close> equals the selector or whose display form
  \<open>name (version)\<close> equals it; it returns \<open>null\<close> exactly when no device satisfies either
  equality.
\<close>

theorem matchingDevice_literal_name:
  "matchingDevice devices (JString s) =
     ([], find (\<lambda>d. name d = s \<or> formattedDeviceName d = s) (rev devices))
   \<and> (\<forall>d. snd (matchingDevice devices (JString s)) = Some d \<longleftrightarrow>
          (\<exists>i < length devices. devices ! i = d
             \<and> (name d = s \<or> name d @ '' ('' @ template_opt (version d) @ '')'' = s)
             \<and> (\<forall>j. i < j \<and> j < length devices \<longrightarrow>
                   \<not> (name (devices ! j) = s
                      \<or> name (devices ! j) @ '' ('' @ template_opt (version (devices ! j)) @ '')'' = s))))
   \<and> (snd (matchingDevice devices (JString s)) = None \<longleftrightarrow>
        (\<forall>d \<in> set devices.
           name d \<noteq> s \<and> name d @ '' ('' @ template_opt (version d) @ '')'' \<noteq> s))"
proof -
  have eq: "matchingDevice devices (JString s) =
     ([], find (\<lambda>d. name d = s \<or> formattedDeviceName d = s) (rev devices))"
    by (simp add: matchingDevice_def matchingDevice_loop_find)
  show ?thesis
    unfolding eq by (simp add: find_rev_Some_iff find_rev_None_iff formattedDeviceName_def)
qed

theorem matchingDevice_literal_name_witness:
  "matchingDevice
     [\<lparr>name = ''iPhone 8'', udid = ''U1'', version = Some ''12.0''\<rparr>,
      \<lparr>name = ''iPhone 8'', udid = ''U2'', version = Some ''13.0''\<rparr>,
      \<lparr>name = ''iPad'', udid = ''U3'', version = Some ''13.0''\<rparr>] (JString ''iPhone 8 (12.0)'')
     = ([], Some \<lparr>name = ''iPhone 8'', udid = ''U1'', version = Some ''12.0''\<rparr>)
   \<and> matchingDevice
     [\<lparr>name = ''iPhone 8'', udid = ''U1'', version = Some ''12.0''\<rparr>,
      \<lparr>name = ''iPhone 8'', udid = ''U2'', version = Some ''13.0''\<rparr>,
      \<lparr>name = ''iPad'', udid = ''U3'', version = Some ''13.0''\<rparr>] (JString ''iPhone 8'')
     = ([], Some \<lparr>name = ''iPhone 8'', udid = ''U2'', version = Some ''13.0''\<rparr>)
   \<and> matchingDevice
     [\<lparr>name = ''iPhone 8'', udid = ''U1'', version = Some ''12.0''\<rparr>,
      \<lparr>name = ''iPhone 8'', udid = ''U2'', version = Some ''13.0''\<rparr>,
      \<lparr>name = ''iPad'', udid = ''U3'', version = Some ''13.0''\<rparr>] (JString ''iPhone X'')
     = ([], None)"
  using matchingDevice_literal_name
    [of "[\<lparr>name = ''iPhone 8'', udid = ''U1'', version = Some ''12.0''\<rparr>,
      \<lparr>name = ''iPhone 8'', udid = ''U2'', version = Some ''13.0''\<rparr>,
      \<lparr>name = ''iPad'', udid = ''U3'', version = Some ''13.0''\<rparr>]" "''iPhone 8 (12.0)''"]
    matchingDevice_literal_name
    [of "[\<lparr>name = ''iPhone 8'', udid = ''U1'', version = Some ''12.0''\<rparr>,
      \<lparr>name = ''iPhone 8'', udid = ''U2'', version = Some ''13.0''\<rparr>,
      \<lparr>name = ''iPad'', udid = ''U3'', version = Some ''13.0''\<rparr>]" "''iPhone 8''"]
    matchingDevice_literal_name
    [of "[\<lparr>name = ''iPhone 8'', udid = ''U1'', version = Some ''12.0''\<rparr>,
      \<lparr>name = ''iPhone 8'', udid = ''U2'', version = Some ''13.0''\<rparr>,
      \<lparr>name = ''iPad'', udid = ''U3'', version = Some ''13.0''\<rparr>]" "''iPhone X''"]
  by (simp add: formattedDeviceName_def)

text \<open>
  Claim C3.  With the bare flag (\<open>true\<close>), \<open>matchingDevice\<close> returns the device of a
  one-element list and logs that it was chosen for lack of a name; on a list of any other
  length (empty, or two and more) it returns \<open>null\<close> and logs nothing.
\<close>

theorem matchingDevice_any:
  "matchingDevice [d] JTrue =
     ([LogInfo (''Using first available device '' @ name d @ '' due to lack of name supplied.'')],
      Some d)
   \<and> (length devices \<noteq> 1 \<longrightarrow> matchingDevice devices JTrue = ([], None))"
  by (simp add: matchingDevice_def matchingDevice_loop_JTrue)

theorem matchingDevice_any_witness:
  "matchingDevice [\<lparr>name = ''Max'', udid = ''U1'', version = Some ''12.0''\<rparr>] JTrue =
     ([LogInfo ''Using first available device Max due to lack of name supplied.''],
      Some \<lparr>name = ''Max'', udid = ''U1'', version = Some ''12.0''\<rparr>)
   \<and> length ([] :: device list) \<noteq> 1 \<and> matchingDevice [] JTrue = ([], None)
   \<and> length [\<lparr>name = ''Max'', udid = ''U1'', version = Some ''12.0''\<rparr>,
              \<lparr>name = ''Max'', udid = ''U2'', version = Some ''12.0''\<rparr>] \<noteq> 1
   \<and> matchingDevice [\<lparr>name = ''Max'', udid = ''U1'', version = Some ''12.0''\<rparr>,
              \<lparr>name = ''Max'', udid = ''U2'', version = Some ''12.0''\<rparr>] JTrue = ([], None)"
  using matchingDevice_any [of "\<lparr>name = ''Max'', udid = ''U1'', version = Some ''12.0''\<rparr>" "[]"]
    matchingDevice_any [of "\<lparr>name = ''Max'', udid = ''U1'', version = Some ''12.0''\<rparr>"
      "[\<lparr>name = ''Max'', udid = ''U1'', version = Some ''12.0''\<rparr>,
        \<lparr>name = ''Max'', udid = ''U2'', version = Some ''12.0''\<rparr>]"]
  by simp

section \<open>Properties of the build path\<close>

lemma includes_str_iff: "includes_str s sub \<longleftrightarrow> (\<exists>pre post. s = pre @ sub @ post)"
proof (induction s)
  case Nil
  then show ?case by auto
next
  case (Cons c cs)
  show ?case
  proof
    assume "includes_str (c # cs) sub"
    then consider "prefix sub (c # cs)" | "includes_str cs sub" by auto
    then show "\<exists>pre post. c # cs = pre @ sub @ post"
    proof cases
      case 1
      then obtain post where "c # cs = sub @ post" by (auto simp: prefix_def)
      then have "c # cs = [] @ sub @ post" by simp
      then show ?thesis by blast
    next
      case 2
      with Cons.IH obtain pre post where "cs = pre @ sub @ post" by blast
      then have "c # cs = (c # pre) @ sub @ post" by simp
      then show ?thesis by blast
    qed
  next
    assume "\<exists>pre post. c # cs = pre @ sub @ post"
    then obtain pre post where e: "c # cs = pre @ sub @ post" by blast
    show "includes_str (c # cs) sub"
    proof (cases pre)
      case Nil
      with e have "prefix sub (c # cs)" by (simp add: prefix_def)
      then show ?thesis by simp
    next
      case (Cons p pre')
      with e have "cs = pre' @ sub @ post" by simp
      with Cons.IH have "includes_str cs sub" by blast
      then show ?thesis by simp
    qed
  qed
qed

lemma toLowerCase_char_eq_iff:
  assumes "97 \<le> (of_char l :: nat)" "(of_char l :: nat) \<le> 122"
  shows "toLowerCase_char c = l \<longleftrightarrow> c = l \<or> (of_char c :: nat) + 32 = of_char l"
proof -
  define n where "n = (of_char c :: nat)"
  define m where "m = (of_char l :: nat)"
  have m: "97 \<le> m" "m \<le> 122" using assms by (simp_all add: m_def)
  have cl: "c = l \<longleftrightarrow> n = m" by (simp add: n_def m_def)
  have unf: "toLowerCase_char c =
      (if (65 \<le> n \<and> n \<le> 90) \<or> (192 \<le> n \<and> n \<le> 222 \<and> n \<noteq> 215) then char_of (n + 32) else c)"
    unfolding toLowerCase_char_def Let_def n_def ..
  show ?thesis
  proof (cases "(65 \<le> n \<and> n \<le> 90) \<or> (192 \<le> n \<and> n \<le> 222 \<and> n \<noteq> 215)")
    case True
    then have t: "toLowerCase_char c = char_of (n + 32)"
      by (simp only: unf if_True)
    from True have small: "n + 32 < 256" by arith
    have "char_of (n + 32) = l \<longleftrightarrow> (of_char (char_of (n + 32)) :: nat) = m"
      unfolding m_def by (rule of_char_eq_iff [symmetric])
    also have "\<dots> \<longleftrightarrow> n + 32 = m" using small by simp
    finally have "toLowerCase_char c = l \<longleftrightarrow> n + 32 = m" using t by simp
    moreover have "n \<noteq> m" using True m by arith
    ultimately have "toLowerCase_char c = l \<longleftrightarrow> c = l \<or> n + 32 = m" using cl by blast
    then show ?thesis unfolding n_def m_def .
  next
    case False
    then have t: "toLowerCase_char c = c" by (simp only: unf if_False)
    have "n + 32 \<noteq> m" using False m by arith
    with t have "toLowerCase_char c = l \<longleftrightarrow> c = l \<or> n + 32 = m" by simp
    then show ?thesis unfolding n_def m_def .
  qed
qed

lemma of_char_eq_numeral_iff:
  "(of_char c :: nat) = of_char d \<longleftrightarrow> c = d"
  by (rule of_char_eq_iff)

lemma toLowerCase_char_tvos:
  "toLowerCase_char c = CHR ''t'' \<longleftrightarrow> c \<in> {CHR ''t'', CHR ''T''}"
  "toLowerCase_char c = CHR ''v'' \<longleftrightarrow> c \<in> {CHR ''v'', CHR ''V''}"
  "toLowerCase_char c = CHR ''o'' \<longleftrightarrow> c \<in> {CHR ''o'', CHR ''O''}"
  "toLowerCase_char c = CHR ''s'' \<longleftrightarrow> c \<in> {CHR ''s'', CHR ''S''}"
proof -
  have T: "(of_char c :: nat) = 84 \<longleftrightarrow> c = CHR ''T''"
    using of_char_eq_numeral_iff [of c "CHR ''T''"] by simp
  have V: "(of_char c :: nat) = 86 \<longleftrightarrow> c = CHR ''V''"
    using of_char_eq_numeral_iff [of c "CHR ''V''"] by simp
  have O: "(of_char c :: nat) = 79 \<longleftrightarrow> c = CHR ''O''"
    using of_char_eq_numeral_iff [of c "CHR ''O''"] by simp
  have S: "(of_char c :: nat) = 83 \<longleftrightarrow> c = CHR ''S''"
    using of_char_eq_numeral_iff [of c "CHR ''S''"] by simp
  have "(of_char c :: nat) + 32 = 116 \<longleftrightarrow> (of_char c :: nat) = 84"
    "(of_char c :: nat) + 32 = 118 \<longleftrightarrow> (of_char c :: nat) = 86"
    "(of_char c :: nat) + 32 = 111 \<longleftrightarrow> (of_char c :: nat) = 79"
    "(of_char c :: nat) + 32 = 115 \<longleftrightarrow> (of_char c :: nat) = 83"
    by arith+
  then show "toLowerCase_char c = CHR ''t'' \<longleftrightarrow> c \<in> {CHR ''t'', CHR ''T''}"
    "toLowerCase_char c = CHR ''v'' \<longleftrightarrow> c \<in> {CHR ''v'', CHR ''V''}"
    "toLowerCase_char c = CHR ''o'' \<longleftrightarrow> c \<in> {CHR ''o'', CHR ''O''}"
    "toLowerCase_char c = CHR ''s'' \<longleftrightarrow> c \<in> {CHR ''s'', CHR ''S''}"
    using T V O S by (simp_all add: toLowerCase_char_eq_iff)
qed

lemma includes_tvos_iff:
  "includes_str (toLowerCase appName) ''tvos'' \<longleftrightarrow>
     (\<exists>pre a b c d post. appName = pre @ [a, b, c, d] @ post
        \<and> a \<in> {CHR ''t'', CHR ''T''} \<and> b \<in> {CHR ''v'', CHR ''V''}
        \<and> c \<in> {CHR ''o'', CHR ''O''} \<and> d \<in> {CHR ''s'', CHR ''S''})"
  (is "?L \<longleftrightarrow> ?R")
proof
  assume ?L
  then obtain p q where "map toLowerCase_char appName = p @ ''tvos'' @ q"
    by (auto simp: includes_str_iff toLowerCase_def)
  then obtain pre rest where pr: "appName = pre @ rest" "map toLowerCase_char rest = ''tvos'' @ q"
    by (metis map_eq_append_conv)
  from pr(2) obtain w post where "rest = w @ post" "map toLowerCase_char w = ''tvos''"
    by (metis map_eq_append_conv)
  with pr(1) have w: "appName = pre @ w @ post" "map toLowerCase_char w = ''tvos''"
    by simp_all
  from w(2) obtain a b c d where abcd: "w = [a, b, c, d]"
    "toLowerCase_char a = CHR ''t''" "toLowerCase_char b = CHR ''v''"
    "toLowerCase_char c = CHR ''o''" "toLowerCase_char d = CHR ''s''"
    by (auto simp: map_eq_Cons_conv)
  with w(1) show ?R unfolding toLowerCase_char_tvos by blast
next
  assume ?R
  then obtain pre a b c d post where r: "appName = pre @ [a, b, c, d] @ post"
    "toLowerCase_char a = CHR ''t''" "toLowerCase_char b = CHR ''v''"
    "toLowerCase_char c = CHR ''o''" "toLowerCase_char d = CHR ''s''"
    unfolding toLowerCase_char_tvos by blast
  then have "toLowerCase appName = toLowerCase pre @ ''tvos'' @ toLowerCase post"
    by (simp add: toLowerCase_def)
  then show ?L unfolding includes_str_iff by blast
qed

text \<open>
  Claim C5.  The build path is \<open>build/<scheme>/Build/Products/<configuration>-<triplet>/<appName>.app\<close>,
  where \<open>build/<scheme>\<close> is the directory the build receives as \<open>-derivedDataPath\<close>.  The
  triplet is \<open>iphoneos\<close> for a physical target whatever the name, \<open>appletvsimulator\<close> for a
  virtual target whose artifact name contains \<open>tvos\<close> in any mix of upper and lower case, and
  \<open>iphonesimulator\<close> otherwise.  For \<open>Debug\<close>, \<open>MyApp\<close>, virtual, the path ends in
  \<open>Debug-iphonesimulator/MyApp.app\<close>.
\<close>

theorem getBuildPath_triplet:
  "getBuildPath configuration appName isDevice scheme =
     ''build/'' @ scheme @ ''/Build/Products/'' @ configuration @ ''-''
       @ (if isDevice then ''iphoneos''
          else if (\<exists>pre a b c d post. appName = pre @ [a, b, c, d] @ post
                     \<and> a \<in> {CHR ''t'', CHR ''T''} \<and> b \<in> {CHR ''v'', CHR ''V''}
                     \<and> c \<in> {CHR ''o'', CHR ''O''} \<and> d \<in> {CHR ''s'', CHR ''S''})
          then ''appletvsimulator''
          else ''iphonesimulator'')
       @ ''/'' @ appName @ ''.app''
   \<and> suffix ''Debug-iphonesimulator/MyApp.app'' (getBuildPath ''Debug'' ''MyApp'' False scheme)
   \<and> SpawnBuild ''xcodebuild''
         [if isWorkspace xcodeProject then ''-workspace'' else ''-project'',
          project_name xcodeProject, ''-configuration'', args_configuration args,
          ''-scheme'', scheme, ''-destination'', ''id='' @ u,
          ''-derivedDataPath'', ''build/'' @ scheme]
         (getProcessOptions args)
       \<in> set (fst (buildProject w xcodeProject u scheme args))"
proof -
  have "getBuildPath ''Debug'' ''MyApp'' False scheme =
          (''build/'' @ scheme @ ''/Build/Products/'') @ ''Debug-iphonesimulator/MyApp.app''"
    by (simp add: getBuildPath_def toLowerCase_def toLowerCase_char_def)
  then have "suffix ''Debug-iphonesimulator/MyApp.app'' (getBuildPath ''Debug'' ''MyApp'' False scheme)"
    unfolding suffix_def by blast
  moreover have "getBuildPath configuration appName isDevice scheme =
     ''build/'' @ scheme @ ''/Build/Products/'' @ configuration @ ''-''
       @ (if isDevice then ''iphoneos''
          else if (\<exists>pre a b c d post. appName = pre @ [a, b, c, d] @ post
                     \<and> a \<in> {CHR ''t'', CHR ''T''} \<and> b \<in> {CHR ''v'', CHR ''V''}
                     \<and> c \<in> {CHR ''o'', CHR ''O''} \<and> d \<in> {CHR ''s'', CHR ''S''})
          then ''appletvsimulator''
          else ''iphonesimulator'')
       @ ''/'' @ appName @ ''.app''"
    unfolding includes_tvos_iff [symmetric] by (simp add: getBuildPath_def)
  moreover have "SpawnBuild ''xcodebuild''
         [if isWorkspace xcodeProject then ''-workspace'' else ''-project'',
          project_name xcodeProject, ''-configuration'', args_configuration args,
          ''-scheme'', scheme, ''-destination'', ''id='' @ u,
          ''-derivedDataPath'', ''build/'' @ scheme]
         (getProcessOptions args)
       \<in> set (fst (buildProject w xcodeProject u scheme args))"
    by (simp add: buildProject_def Let_def io_bind_def io_do_def io_return_def io_throw_def
          xcprettyAvailable_def split: prod.splits)
  ultimately show ?thesis by blast
qed

theorem getBuildPath_triplet_witness:
  "getBuildPath ''Release'' ''Hello-tvOS'' False ''helloworld-tvOS'' =
     ''build/helloworld-tvOS/Build/Products/Release-appletvsimulator/Hello-tvOS.app''
   \<and> getBuildPath ''Release'' ''Hello-tvOS'' True ''helloworld-tvOS'' =
     ''build/helloworld-tvOS/Build/Products/Release-iphoneos/Hello-tvOS.app''
   \<and> getBuildPath ''Debug'' ''MyApp'' False ''MyApp'' =
     ''build/MyApp/Build/Products/Debug-iphonesimulator/MyApp.app''"
proof -
  have tv: "\<exists>pre a b c d post. ''Hello-tvOS'' = pre @ [a, b, c, d] @ post
                     \<and> a \<in> {CHR ''t'', CHR ''T''} \<and> b \<in> {CHR ''v'', CHR ''V''}
                     \<and> c \<in> {CHR ''o'', CHR ''O''} \<and> d \<in> {CHR ''s'', CHR ''S''}"
    by (intro exI[of _ "''Hello-''"] exI[of _ "CHR ''t''"] exI[of _ "CHR ''v''"]
          exI[of _ "CHR ''O''"] exI[of _ "CHR ''S''"] exI[of _ "[]"]) simp
  have notv: "\<not> (\<exists>pre a b c d post. ''MyApp'' = pre @ [a, b, c, d] @ post
                     \<and> a \<in> {CHR ''t'', CHR ''T''} \<and> b \<in> {CHR ''v'', CHR ''V''}
                     \<and> c \<in> {CHR ''o'', CHR ''O''} \<and> d \<in> {CHR ''s'', CHR ''S''})"
    unfolding includes_tvos_iff [symmetric] by (simp add: toLowerCase_def toLowerCase_char_def)
  show ?thesis
    using getBuildPath_triplet [where configuration = "''Release''" and appName = "''Hello-tvOS''"
        and isDevice = False and scheme = "''helloworld-tvOS''"]
      getBuildPath_triplet [where configuration = "''Release''" and appName = "''Hello-tvOS''"
        and isDevice = True and scheme = "''helloworld-tvOS''"]
      getBuildPath_triplet [where configuration = "''Debug''" and appName = "''MyApp''"
        and isDevice = False and scheme = "''MyApp''"]
    unfolding if_P [OF tv] if_not_P [OF notv] by simp
qed

section \<open>Properties of the pattern matcher\<close>



lemma at_line_end_quote: "\<not> at_line_end (CHR 0x22 # r)"
  by (simp add: at_line_end_def is_line_terminator_def)





























section \<open>Properties of the build step\<close>

lemma io_bind_Inl: "snd m = Inl e \<Longrightarrow> io_bind m f = (fst m, Inl e)"
  by (cases m) (simp add: io_bind_def)

lemma io_bind_Inr: "snd m = Inr v \<Longrightarrow> io_bind m f = (fst m @ fst (f v), snd (f v))"
  by (cases m) (simp add: io_bind_def split: prod.splits)

lemma io_bind_do: "io_bind (io_do a) f = (a # fst (f ()), snd (f ()))"
  by (simp add: io_bind_def io_do_def split: prod.splits)

lemma io_bind_return: "io_bind (io_return v) f = f v"
  by (simp add: io_bind_def io_return_def split: prod.splits)

lemma io_bind_call_Inr: "io_bind (io_call a (Inr v)) f = (a # fst (f v), snd (f v))"
  by (simp add: io_bind_def io_call_def split: prod.splits)

lemma io_bind_call_Inl: "io_bind (io_call a (Inl e)) f = ([a], Inl e)"
  by (simp add: io_bind_def io_call_def)

lemma foldl_append_concat: "foldl (\<lambda>acc data. acc @ data) a xs = a @ concat xs"
  by (induction xs arbitrary: a) simp_all

lemma xcprettyAvailable_snd: "\<exists>b. snd (xcprettyAvailable w) = Inr b"
  by (simp add: xcprettyAvailable_def)

lemma buildProject_snd:
  "snd (buildProject w xcodeProject u scheme args) =
     (if buildExitCode w \<noteq> Some 0 then
        Inl (CLIError (buildFailedMessage (buildExitCode w) xcodeProject) (Some (concat (buildStderr w))))
      else Inr (js_or (getProductName (concat (buildStdout w))) scheme))"
  by (simp add: buildProject_def Let_def io_bind_do io_bind_return io_bind_def io_do_def
        io_return_def io_throw_def xcprettyAvailable_def foldl_append_concat split: prod.splits)

lemma buildProject_no_post_build:
  "a \<in> set (fst (buildProject w xcodeProject u scheme args)) \<Longrightarrow> \<not> is_post_build_step a"
  by (auto simp: buildProject_def Let_def io_bind_do io_bind_return io_bind_def io_do_def
        io_return_def io_throw_def xcprettyAvailable_def is_post_build_step_def onStdoutData_def
        split: prod.splits if_splits)

lemma buildProject_has_build:
  "\<exists>a \<in> set (fst (buildProject w xcodeProject u scheme args)). is_build_step a"
  by (auto simp: buildProject_def Let_def io_bind_do io_bind_return io_bind_def io_do_def
        io_return_def io_throw_def xcprettyAvailable_def is_build_step_def
        split: prod.splits if_splits)

section \<open>Properties of the artifact name\<close>







section \<open>Properties of the run\<close>

lemma bootSimulator_eq:
  "bootSimulator w sim =
     ([LogInfo (''Launching '' @ formattedDeviceName sim @ ''...''),
       Exec ''xcrun'' [''instruments'', ''-w'', udid sim]], Inr ())"
  by (simp add: bootSimulator_def Let_def io_bind_do io_try_ignore_def io_call_def)

lemma runOnDevice_shape:
  "runOnDevice w d scheme xcodeProject args =
     (let b = buildProject w xcodeProject (udid d) scheme args in
      case snd b of
        Inl e \<Rightarrow> (fst b, Inl e)
      | Inr appName \<Rightarrow>
          (let t = fst b @
                 [LogInfo (''Installing and launching your app on '' @ name d @ ''...''),
                  Exec ''ios-deploy''
                    [''--bundle'', getBuildPath (args_configuration args) appName True scheme,
                     ''--id'', udid d, ''--justlaunch'']]
           in case iosDeployResult w of
                Inl e \<Rightarrow> (t, Inl e)
              | Inr r \<Rightarrow>
                  if spawn_error r \<noteq> None then
                    (t @ [LogError
                       (''** INSTALLATION FAILED **\<newline>Make sure you have ios-deploy installed globally.\<newline>''
                        @ ''(e.g \"npm install -g ios-deploy\")'')], Inr ())
                  else (t @ [LogInfo ''** INSTALLATION SUCCEEDED **''], Inr ())))"
proof (cases "snd (buildProject w xcodeProject (udid d) scheme args)")
  case (Inl e)
  then show ?thesis by (simp add: runOnDevice_def io_bind_Inl)
next
  case (Inr appName)
  then show ?thesis
    by (cases "iosDeployResult w")
       (simp_all add: runOnDevice_def io_bind_Inr Let_def io_bind_do io_bind_call_Inl
          io_bind_call_Inr io_do_def)
qed

lemma runOnSimulator_shape:
  assumes "simulatorListParses w" "matchedSimulator w = Some sim"
    "xcodeSelectOutput w = Inr out" "openSimulatorApp w = Inr out'"
  shows "runOnSimulator w xcodeProject scheme args =
     (let pre = [Exec ''xcrun'' [''simctl'', ''list'', ''--json'', ''devices''],
                 Exec ''xcode-select'' [''-p''],
                 Exec ''open'' [trim out @ ''/Applications/Simulator.app'', ''--args'',
                                ''-CurrentDeviceUDID'', udid sim]]
                @ (if \<not> booted sim then fst (bootSimulator w sim) else []);
          b = buildProject w xcodeProject (udid sim) scheme args
      in case snd b of
        Inl e \<Rightarrow> (pre @ fst b, Inl e)
      | Inr appName \<Rightarrow>
          (let appPath = getBuildPath (args_configuration args) appName False scheme;
               t1 = pre @ fst b @
                 [LogInfo (''Installing '' @ appPath),
                  Exec ''xcrun'' [''simctl'', ''install'', udid sim, appPath]];
               t2 = t1 @ [Exec ''/usr/libexec/PlistBuddy''
                  [''-c'', ''Print:CFBundleIdentifier'', pathJoin w appPath ''Info.plist'']]
           in case installResult w of
                Inl e \<Rightarrow> (t1, Inl e)
              | Inr r1 \<Rightarrow>
                  (case bundleIDOutput w of
                     Inl e \<Rightarrow> (t2, Inl e)
                   | Inr bundle \<Rightarrow>
                       (t2 @ [LogInfo (''Launching '' @ trim bundle),
                              Exec ''xcrun'' [''simctl'', ''launch'', udid sim, trim bundle]],
                        case launchResult w of Inl e \<Rightarrow> Inl e | Inr r2 \<Rightarrow> Inr ()))))"
proof -
  have boot: "(if \<not> booted sim then bootSimulator w sim else io_return ())
      = (if \<not> booted sim then fst (bootSimulator w sim) else [], Inr ())"
    by (simp add: bootSimulator_eq io_return_def)
  show ?thesis
  proof (cases "snd (buildProject w xcodeProject (udid sim) scheme args)")
    case (Inl e)
    then show ?thesis
      using assms
      by (simp add: runOnSimulator_def io_bind_call_Inr Let_def boot io_bind_Inr io_bind_Inl)
  next
    case (Inr appName)
    then show ?thesis
      using assms
      by (cases "installResult w"; cases "bundleIDOutput w"; cases "launchResult w")
         (simp_all add: runOnSimulator_def io_bind_call_Inr io_bind_call_Inl Let_def boot
            io_bind_Inr io_bind_do io_return_def)
  qed
qed

lemma runOnSimulator_stops_early:
  assumes "\<not> simulatorListParses w \<or> matchedSimulator w = None
           \<or> (\<exists>e. xcodeSelectOutput w = Inl e) \<or> (\<exists>e. openSimulatorApp w = Inl e)"
  shows "(\<exists>e. snd (runOnSimulator w xcodeProject scheme args) = Inl e)
         \<and> (\<forall>a \<in> set (fst (runOnSimulator w xcodeProject scheme args)).
               \<not> is_build_step a \<and> \<not> is_post_build_step a)"
proof (cases "simulatorListParses w")
  case False
  then show ?thesis
    by (simp add: runOnSimulator_def io_bind_call_Inl is_build_step_def is_post_build_step_def)
next
  case parses: True
  show ?thesis
  proof (cases "matchedSimulator w")
    case None
    with parses show ?thesis
      by (simp add: runOnSimulator_def io_bind_call_Inr io_throw_def is_build_step_def
            is_post_build_step_def)
  next
    case (Some sim)
    show ?thesis
    proof (cases "xcodeSelectOutput w")
      case (Inl e)
      with parses Some show ?thesis
        by (simp add: runOnSimulator_def io_bind_call_Inr io_bind_call_Inl is_build_step_def
              is_post_build_step_def)
    next
      case (Inr out)
      with assms parses Some obtain e where "openSimulatorApp w = Inl e" by auto
      with parses Some Inr show ?thesis
        by (simp add: runOnSimulator_def io_bind_call_Inr io_bind_call_Inl Let_def
              is_build_step_def is_post_build_step_def)
    qed
  qed
qed

lemma runOnSimulator_prebuild_cases:
  obtains (early) "\<not> simulatorListParses w \<or> matchedSimulator w = None
           \<or> (\<exists>e. xcodeSelectOutput w = Inl e) \<or> (\<exists>e. openSimulatorApp w = Inl e)"
  | (build) sim out out' where "simulatorListParses w" "matchedSimulator w = Some sim"
      "xcodeSelectOutput w = Inr out" "openSimulatorApp w = Inr out'"
  by (cases "matchedSimulator w"; cases "xcodeSelectOutput w"; cases "openSimulatorApp w") auto

lemma bootSimulator_trace_plain:
  "a \<in> set (fst (bootSimulator w sim)) \<Longrightarrow> \<not> is_build_step a \<and> \<not> is_post_build_step a"
  by (auto simp: bootSimulator_eq is_build_step_def is_post_build_step_def)

lemma runOnSimulator_build_failed:
  assumes "buildExitCode w \<noteq> Some 0"
  shows "(\<exists>e. snd (runOnSimulator w xcodeProject scheme args) = Inl e)
         \<and> (\<forall>a \<in> set (fst (runOnSimulator w xcodeProject scheme args)). \<not> is_post_build_step a)
         \<and> ((\<exists>a \<in> set (fst (runOnSimulator w xcodeProject scheme args)). is_build_step a) \<longrightarrow>
              snd (runOnSimulator w xcodeProject scheme args) =
                Inl (CLIError (buildFailedMessage (buildExitCode w) xcodeProject)
                       (Some (concat (buildStderr w)))))"
proof (cases w rule: runOnSimulator_prebuild_cases)
  case early
  from runOnSimulator_stops_early [OF early] show ?thesis by blast
next
  case (build sim out out')
  have b: "snd (buildProject w xcodeProject (udid sim) scheme args) =
      Inl (CLIError (buildFailedMessage (buildExitCode w) xcodeProject) (Some (concat (buildStderr w))))"
    using assms by (simp add: buildProject_snd)
  have eq: "runOnSimulator w xcodeProject scheme args =
     ([Exec ''xcrun'' [''simctl'', ''list'', ''--json'', ''devices''],
       Exec ''xcode-select'' [''-p''],
       Exec ''open'' [trim out @ ''/Applications/Simulator.app'', ''--args'',
                      ''-CurrentDeviceUDID'', udid sim]]
      @ (if \<not> booted sim then fst (bootSimulator w sim) else [])
      @ fst (buildProject w xcodeProject (udid sim) scheme args),
      Inl (CLIError (buildFailedMessage (buildExitCode w) xcodeProject) (Some (concat (buildStderr w)))))"
    unfolding runOnSimulator_shape [OF build] by (simp add: b Let_def)
  have "\<forall>a \<in> set (fst (runOnSimulator w xcodeProject scheme args)). \<not> is_post_build_step a"
    unfolding eq
    by (auto dest: buildProject_no_post_build bootSimulator_trace_plain
          simp: is_post_build_step_def split: if_splits)
  then show ?thesis unfolding eq by simp
qed

lemma runOnDevice_build_failed:
  assumes "buildExitCode w \<noteq> Some 0"
  shows "runOnDevice w d scheme xcodeProject args =
     (fst (buildProject w xcodeProject (udid d) scheme args),
      Inl (CLIError (buildFailedMessage (buildExitCode w) xcodeProject)
             (Some (concat (buildStderr w)))))"
  unfolding runOnDevice_shape using assms by (simp add: buildProject_snd Let_def)

lemma matchingDevice_trace_plain:
  "a \<in> set (fst (matchingDevice devices v)) \<Longrightarrow> \<not> is_build_step a \<and> \<not> is_post_build_step a"
  by (auto simp: matchingDevice_def is_build_step_def is_post_build_step_def split: if_splits)

lemma runIOS_stops_early:
  assumes "\<not> projectPathExists w \<or> foundXcodeProject w = None \<or> (\<exists>e. listedDevices w = Inl e)"
  shows "(\<exists>e. snd (runIOS w args) = Inl e)
         \<and> (\<forall>a \<in> set (fst (runIOS w args)). \<not> is_build_step a \<and> \<not> is_post_build_step a)"
proof (cases "projectPathExists w")
  case False
  then show ?thesis by (simp add: runIOS_def io_throw_def)
next
  case ex: True
  show ?thesis
  proof (cases "foundXcodeProject w")
    case None
    with ex show ?thesis
      by (simp add: runIOS_def io_bind_do io_throw_def is_build_step_def is_post_build_step_def)
  next
    case (Some xp)
    with assms ex obtain e where "listedDevices w = Inl e" by auto
    with ex Some show ?thesis
      by (simp add: runIOS_def io_bind_do io_bind_call_Inl Let_def is_build_step_def
            is_post_build_step_def)
  qed
qed

lemma io_bind_pair_Inr: "io_bind (t, Inr v) f = (t @ fst (f v), snd (f v))"
  by (simp add: io_bind_def split: prod.splits)

lemma runIOS_shape:
  assumes "projectPathExists w" "foundXcodeProject w = Some xcodeProject"
    "listedDevices w = Inr devices"
  shows "runIOS w args =
     (let scheme = js_or (args_scheme args) (inferredSchemeName w);
          pre = [Chdir (args_projectPath args),
                 LogInfo (''Found Xcode ''
                   @ (if isWorkspace xcodeProject then ''workspace'' else ''project'')
                   @ '' '' @ project_name xcodeProject),
                 Exec ''xcrun'' [''instruments'', ''-s'']]
      in
      if truthy (args_device args) \<or> truthy (args_udid args) then
        (let m = (if truthy (args_device args) then matchingDevice devices (args_device args)
                  else ([], matchingDeviceByUdid devices (args_udid args)))
         in case snd m of
              Some d \<Rightarrow>
                (pre @ fst m @ fst (runOnDevice w d scheme xcodeProject args),
                 snd (runOnDevice w d scheme xcodeProject args))
            | None \<Rightarrow>
                (pre @ fst m @
                   [LogError
                     (if devices \<noteq> [] then
                        (if truthy (args_device args)
                         then deviceNotFoundMessage ''name'' (args_device args) devices
                         else deviceNotFoundMessage ''udid'' (args_udid args) devices)
                      else ''No iOS devices connected.'')],
                 Inr ()))
      else
        (pre @ fst (runOnSimulator w xcodeProject scheme args),
         snd (runOnSimulator w xcodeProject scheme args)))"
proof (cases "truthy (args_device args) \<or> truthy (args_udid args)")
  case False
  with assms show ?thesis
    by (simp add: runIOS_def io_bind_do io_bind_call_Inr Let_def)
next
  case sel: True
  show ?thesis
  proof (cases "truthy (args_device args)")
    case True
    obtain t d where m: "matchingDevice devices (args_device args) = (t, d)"
      by (cases "matchingDevice devices (args_device args)")
    show ?thesis
      using assms True m
      by (cases d)
         (simp_all add: runIOS_def io_bind_do io_bind_call_Inr Let_def io_bind_pair_Inr io_do_def)
  next
    case False
    with sel have u: "truthy (args_udid args)" by simp
    show ?thesis
      using assms False u
      by (cases "matchingDeviceByUdid devices (args_udid args)")
         (simp_all add: runIOS_def io_bind_do io_bind_call_Inr Let_def io_bind_return
            io_bind_pair_Inr io_do_def)
  qed
qed

lemma runIOS_prelude_cases:
  obtains (early) "\<not> projectPathExists w \<or> foundXcodeProject w = None \<or> (\<exists>e. listedDevices w = Inl e)"
  | (run) xcodeProject devices where "projectPathExists w" "foundXcodeProject w = Some xcodeProject"
      "listedDevices w = Inr devices"
  by (cases "foundXcodeProject w"; cases "listedDevices w") auto

section \<open>Failure of the build\<close>

lemma runIOS_build_failed:
  assumes "buildExitCode w \<noteq> Some 0"
  shows "(\<forall>a \<in> set (fst (runIOS w args)). \<not> is_post_build_step a)
         \<and> ((\<exists>a \<in> set (fst (runIOS w args)). is_build_step a) \<longrightarrow>
              (\<exists>xcodeProject. foundXcodeProject w = Some xcodeProject
                 \<and> snd (runIOS w args) =
                     Inl (CLIError (buildFailedMessage (buildExitCode w) xcodeProject)
                            (Some (concat (buildStderr w))))))"
proof (cases w rule: runIOS_prelude_cases)
  case early
  from runIOS_stops_early [OF early] show ?thesis by blast
next
  case (run xcodeProject devices)
  let ?scheme = "js_or (args_scheme args) (inferredSchemeName w)"
  let ?pre = "[Chdir (args_projectPath args),
               LogInfo (''Found Xcode ''
                 @ (if isWorkspace xcodeProject then ''workspace'' else ''project'')
                 @ '' '' @ project_name xcodeProject),
               Exec ''xcrun'' [''instruments'', ''-s'']]"
  have pre: "\<forall>a \<in> set ?pre. \<not> is_build_step a \<and> \<not> is_post_build_step a"
    by (simp add: is_build_step_def is_post_build_step_def)
  show ?thesis
  proof (cases "truthy (args_device args) \<or> truthy (args_udid args)")
    case False
    then have eq: "runIOS w args =
        (?pre @ fst (runOnSimulator w xcodeProject ?scheme args),
         snd (runOnSimulator w xcodeProject ?scheme args))"
      unfolding runIOS_shape [OF run] by (simp add: Let_def)
    from runOnSimulator_build_failed [OF assms, of xcodeProject ?scheme args] pre run(2)
    show ?thesis unfolding eq by auto
  next
    case True
    define m where "m = (if truthy (args_device args) then matchingDevice devices (args_device args)
                  else ([], matchingDeviceByUdid devices (args_udid args)))"
    have mt: "\<forall>a \<in> set (fst m). \<not> is_build_step a \<and> \<not> is_post_build_step a"
      unfolding m_def by (auto dest: matchingDevice_trace_plain)
    show ?thesis
    proof (cases "snd m")
      case None
      then have eq: "runIOS w args =
          (?pre @ fst m @
             [LogError
               (if devices \<noteq> [] then
                  (if truthy (args_device args)
                   then deviceNotFoundMessage ''name'' (args_device args) devices
                   else deviceNotFoundMessage ''udid'' (args_udid args) devices)
                else ''No iOS devices connected.'')],
           Inr ())"
        unfolding runIOS_shape [OF run] using True by (simp add: Let_def m_def)
      have "\<forall>a \<in> set (fst (runIOS w args)). \<not> is_build_step a \<and> \<not> is_post_build_step a"
        unfolding eq using pre mt by (auto simp: is_build_step_def is_post_build_step_def)
      then show ?thesis by blast
    next
      case (Some d)
      then have eq: "runIOS w args =
          (?pre @ fst m @ fst (runOnDevice w d ?scheme xcodeProject args),
           snd (runOnDevice w d ?scheme xcodeProject args))"
        unfolding runIOS_shape [OF run] using True by (simp add: Let_def m_def)
      have "\<forall>a \<in> set (fst (runIOS w args)). \<not> is_post_build_step a"
        unfolding eq runOnDevice_build_failed [OF assms] using pre mt
        by (auto dest: buildProject_no_post_build)
      moreover have "snd (runIOS w args) =
          Inl (CLIError (buildFailedMessage (buildExitCode w) xcodeProject)
                 (Some (concat (buildStderr w))))"
        unfolding eq runOnDevice_build_failed [OF assms] by simp
      ultimately show ?thesis using run(2) by blast
    qed
  qed
qed

lemma buildFailedMessage_parts:
  "(\<exists>pre post. buildFailedMessage code xcodeProject =
       pre @ ''exited with error code '' @ template_code code @ ''.'' @ post)
   \<and> (\<exists>pre post. buildFailedMessage code xcodeProject =
       pre @ ''consider building your app with Xcode.app, by opening'' @ post)"
proof
  have "buildFailedMessage code xcodeProject =
      (''\<newline>            Failed to build iOS project.\<newline>\<newline>''
         @ ''            We ran \"xcodebuild\" command but it '')
      @ ''exited with error code '' @ template_code code @ ''.''
      @ ('' To debug build\<newline>''
         @ ''            logs further, consider building your app with Xcode.app, by opening\<newline>''
         @ ''            '' @ project_name xcodeProject @ ''.\<newline>          '')"
    by (simp add: buildFailedMessage_def)
  then show "\<exists>pre post. buildFailedMessage code xcodeProject =
       pre @ ''exited with error code '' @ template_code code @ ''.'' @ post" by blast
  have "buildFailedMessage code xcodeProject =
      (''\<newline>            Failed to build iOS project.\<newline>\<newline>''
         @ ''            We ran \"xcodebuild\" command but it exited with error code ''
         @ template_code code @ ''. To debug build\<newline>'' @ ''            logs further, '')
      @ ''consider building your app with Xcode.app, by opening''
      @ (''\<newline>            '' @ project_name xcodeProject @ ''.\<newline>          '')"
    by (simp add: buildFailedMessage_def)
  then show "\<exists>pre post. buildFailedMessage code xcodeProject =
       pre @ ''consider building your app with Xcode.app, by opening'' @ post" by blast
qed

text \<open>
  Claim C6.  \<open>buildProject\<close> resolves with an artifact name exactly when \<open>xcodebuild\<close> exits
  with code 0.  On any other code (or none) it rejects with a \<open>CLIError\<close> whose message holds
  the exit code and the hint to open the project in Xcode and whose original error is the
  accumulated standard error.  A run of the command that reached the build then ends with
  that error, and no run executes an install or launch step.
\<close>

theorem build_resolves_iff_exit_zero:
  "((\<exists>appName. snd (buildProject w xcodeProject u scheme args) = Inr appName)
      \<longleftrightarrow> buildExitCode w = Some 0)
   \<and> (buildExitCode w \<noteq> Some 0 \<longrightarrow>
        snd (buildProject w xcodeProject u scheme args) =
          Inl (CLIError (buildFailedMessage (buildExitCode w) xcodeProject)
                 (Some (concat (buildStderr w))))
        \<and> (\<exists>pre post. buildFailedMessage (buildExitCode w) xcodeProject =
              pre @ ''exited with error code '' @ template_code (buildExitCode w) @ ''.'' @ post)
        \<and> (\<exists>pre post. buildFailedMessage (buildExitCode w) xcodeProject =
              pre @ ''consider building your app with Xcode.app, by opening'' @ post)
        \<and> (\<forall>a \<in> set (fst (runIOS w args)). \<not> is_post_build_step a)
        \<and> ((\<exists>a \<in> set (fst (runIOS w args)). is_build_step a) \<longrightarrow>
             (\<exists>found. foundXcodeProject w = Some found
                \<and> snd (runIOS w args) =
                    Inl (CLIError (buildFailedMessage (buildExitCode w) found)
                           (Some (concat (buildStderr w)))))))"
proof -
  have 1: "(\<exists>appName. snd (buildProject w xcodeProject u scheme args) = Inr appName)
      \<longleftrightarrow> buildExitCode w = Some 0"
    by (simp add: buildProject_snd)
  have 2: "buildExitCode w \<noteq> Some 0 \<longrightarrow>
        snd (buildProject w xcodeProject u scheme args) =
          Inl (CLIError (buildFailedMessage (buildExitCode w) xcodeProject)
                 (Some (concat (buildStderr w))))"
    by (simp add: buildProject_snd)
  from 1 2 buildFailedMessage_parts [of "buildExitCode w" xcodeProject] runIOS_build_failed [of w args]
  show ?thesis by blast
qed

theorem build_resolves_iff_exit_zero_witness:
  "buildExitCode (example_world\<lparr>buildExitCode := Some 65\<rparr>) \<noteq> Some 0
   \<and> snd (runIOS (example_world\<lparr>buildExitCode := Some 65\<rparr>) (example_flags\<lparr>args_device := JTrue\<rparr>))
       = Inl (CLIError (buildFailedMessage (Some 65) example_project)
                (Some ''warning: unused variable\<newline>''))
   \<and> template_code (Some 65) = ''65''
   \<and> list_all (\<lambda>a. \<not> is_post_build_step a)
        (fst (runIOS (example_world\<lparr>buildExitCode := Some 65\<rparr>) (example_flags\<lparr>args_device := JTrue\<rparr>)))
   \<and> buildExitCode example_world = Some 0
   \<and> snd (buildProject example_world example_project ''U1'' ''MyApp'' example_flags) = Inr ''MyApp''"
proof -
  let ?w = "example_world\<lparr>buildExitCode := Some 65\<rparr>"
  let ?a = "example_flags\<lparr>args_device := JTrue\<rparr>"
  have c: "buildExitCode ?w = Some 65" "buildExitCode ?w \<noteq> Some 0"
    "foundXcodeProject ?w = Some example_project"
    "concat (buildStderr ?w) = ''warning: unused variable\<newline>''"
    "buildExitCode example_world = Some 0"
    by (simp_all add: example_world_def)
  have b: "\<exists>a \<in> set (fst (runIOS ?w ?a)). is_build_step a"
    by code_simp
  have t: "template_code (Some 65) = ''65''"
    by code_simp
  have n: "snd (buildProject example_world example_project ''U1'' ''MyApp'' example_flags) = Inr ''MyApp''"
    by code_simp
  from build_resolves_iff_exit_zero [of ?w example_project "''U1''" "''MyApp''" ?a] c b
  have "snd (runIOS ?w ?a) = Inl (CLIError (buildFailedMessage (Some 65) example_project)
                (Some ''warning: unused variable\<newline>''))"
    and "\<forall>a \<in> set (fst (runIOS ?w ?a)). \<not> is_post_build_step a"
    by auto
  with c t n show ?thesis by (simp add: list_all_iff)
qed

section \<open>Device selection in the command\<close>

lemma printFoundDevices_eq:
  "printFoundDevices devices =
     concat (map (\<lambda>d. name d @ '' Udid: '' @ udid d @ ''\<newline>'') (rev devices))"
  by (simp add: printFoundDevices_def printFoundDevices_loop_eq)

lemma matchingDevice_None_trace: "snd (matchingDevice devices v) = None \<Longrightarrow> fst (matchingDevice devices v) = []"
  by (auto simp: matchingDevice_def split: if_splits)

text \<open>
  Claim C7.  When the project and the device list were read and the selector (by name, or by
  udid when no name is given) matches no device, the command returns without an error after
  one line on the error log, and starts neither the build nor any later step.  For a
  non-empty list the line is the \<open>Could not find device\<close> message followed by one
  \<open>name Udid: udid\<close> line per listed device, last listed first; for an empty list it is
  \<open>No iOS devices connected.\<close> and nothing else.
\<close>

theorem device_not_found_stops_before_build:
  "projectPathExists w \<and> foundXcodeProject w = Some xcodeProject \<and> listedDevices w = Inr devices
   \<and> (truthy (args_device args) \<or> truthy (args_udid args))
   \<and> (if truthy (args_device args) then snd (matchingDevice devices (args_device args))
       else matchingDeviceByUdid devices (args_udid args)) = None
   \<longrightarrow>
     snd (runIOS w args) = Inr ()
     \<and> (\<forall>a \<in> set (fst (runIOS w args)). \<not> is_build_step a \<and> \<not> is_post_build_step a)
     \<and> (\<exists>t. (\<forall>a \<in> set t. \<not> is_error_log a)
           \<and> fst (runIOS w args) = t @
               [LogError
                  (if devices = [] then ''No iOS devices connected.''
                   else ''Could not find device with the ''
                     @ (if truthy (args_device args) then ''name'' else ''udid'') @ '': \"''
                     @ template (if truthy (args_device args) then args_device args else args_udid args)
                     @ ''\". Choose one of the following:\<newline>''
                     @ concat (map (\<lambda>d. name d @ '' Udid: '' @ udid d @ ''\<newline>'') (rev devices)))])"
proof (intro impI)
  assume h: "projectPathExists w \<and> foundXcodeProject w = Some xcodeProject \<and> listedDevices w = Inr devices
   \<and> (truthy (args_device args) \<or> truthy (args_udid args))
   \<and> (if truthy (args_device args) then snd (matchingDevice devices (args_device args))
       else matchingDeviceByUdid devices (args_udid args)) = None"
  then have run: "projectPathExists w" "foundXcodeProject w = Some xcodeProject"
    "listedDevices w = Inr devices" by simp_all
  let ?pre = "[Chdir (args_projectPath args),
               LogInfo (''Found Xcode ''
                 @ (if isWorkspace xcodeProject then ''workspace'' else ''project'')
                 @ '' '' @ project_name xcodeProject),
               Exec ''xcrun'' [''instruments'', ''-s'']]"
  let ?msg = "if devices = [] then ''No iOS devices connected.''
                   else ''Could not find device with the ''
                     @ (if truthy (args_device args) then ''name'' else ''udid'') @ '': \"''
                     @ template (if truthy (args_device args) then args_device args else args_udid args)
                     @ ''\". Choose one of the following:\<newline>''
                     @ concat (map (\<lambda>d. name d @ '' Udid: '' @ udid d @ ''\<newline>'') (rev devices))"
  have eq: "runIOS w args = (?pre @ [LogError ?msg], Inr ())"
  proof (cases "truthy (args_device args)")
    case True
    with h have none: "snd (matchingDevice devices (args_device args)) = None" by simp
    then have "fst (matchingDevice devices (args_device args)) = []"
      by (rule matchingDevice_None_trace)
    with none True show ?thesis
      unfolding runIOS_shape [OF run]
      by (simp add: Let_def deviceNotFoundMessage_def printFoundDevices_eq)
  next
    case False
    with h have "truthy (args_udid args)" "matchingDeviceByUdid devices (args_udid args) = None"
      by simp_all
    with False show ?thesis
      unfolding runIOS_shape [OF run]
      by (simp add: Let_def deviceNotFoundMessage_def printFoundDevices_eq)
  qed
  have pre: "\<forall>a \<in> set ?pre. \<not> is_error_log a"
    by (simp add: is_error_log_def)
  have "fst (runIOS w args) = ?pre @ [LogError ?msg]" by (simp add: eq)
  with pre have "\<exists>t. (\<forall>a \<in> set t. \<not> is_error_log a) \<and> fst (runIOS w args) = t @ [LogError ?msg]"
    by blast
  moreover have "\<forall>a \<in> set (fst (runIOS w args)). \<not> is_build_step a \<and> \<not> is_post_build_step a"
    by (simp add: eq is_build_step_def is_post_build_step_def)
  moreover have "snd (runIOS w args) = Inr ()" by (simp add: eq)
  ultimately show "snd (runIOS w args) = Inr ()
     \<and> (\<forall>a \<in> set (fst (runIOS w args)). \<not> is_build_step a \<and> \<not> is_post_build_step a)
     \<and> (\<exists>t. (\<forall>a \<in> set t. \<not> is_error_log a) \<and> fst (runIOS w args) = t @ [LogError ?msg])"
    by blast
qed

theorem device_not_found_stops_before_build_witness:
  "snd (runIOS example_world (example_flags\<lparr>args_udid := JString ''U9''\<rparr>)) = Inr ()
   \<and> last (fst (runIOS example_world (example_flags\<lparr>args_udid := JString ''U9''\<rparr>)))
       = LogError ''Could not find device with the udid: \"U9\". Choose one of the following:\<newline>Max Udid: U1\<newline>''
   \<and> snd (runIOS (example_world\<lparr>listedDevices := Inr []\<rparr>) (example_flags\<lparr>args_device := JTrue\<rparr>)) = Inr ()
   \<and> last (fst (runIOS (example_world\<lparr>listedDevices := Inr []\<rparr>) (example_flags\<lparr>args_device := JTrue\<rparr>)))
       = LogError ''No iOS devices connected.''"
proof -
  let ?a1 = "example_flags\<lparr>args_udid := JString ''U9''\<rparr>"
  let ?w2 = "example_world\<lparr>listedDevices := Inr []\<rparr>"
  let ?a2 = "example_flags\<lparr>args_device := JTrue\<rparr>"
  have h1: "projectPathExists example_world \<and> foundXcodeProject example_world = Some example_project
      \<and> listedDevices example_world = Inr [example_device]
      \<and> (truthy (args_device ?a1) \<or> truthy (args_udid ?a1))
      \<and> (if truthy (args_device ?a1) then snd (matchingDevice [example_device] (args_device ?a1))
          else matchingDeviceByUdid [example_device] (args_udid ?a1)) = None"
    by (simp add: example_world_def example_flags_def example_device_def matchingDeviceByUdid_def)
  have h2: "projectPathExists ?w2 \<and> foundXcodeProject ?w2 = Some example_project
      \<and> listedDevices ?w2 = Inr []
      \<and> (truthy (args_device ?a2) \<or> truthy (args_udid ?a2))
      \<and> (if truthy (args_device ?a2) then snd (matchingDevice [] (args_device ?a2))
          else matchingDeviceByUdid [] (args_udid ?a2)) = None"
    by (simp add: example_world_def example_flags_def matchingDevice_def)
  have v: "truthy (args_device ?a1) = False" "args_udid ?a1 = JString ''U9''"
    by (simp_all add: example_flags_def)
  note c1 = device_not_found_stops_before_build
    [of example_world example_project "[example_device]" ?a1, THEN mp, OF h1]
  note c2 = device_not_found_stops_before_build [of ?w2 example_project "[]" ?a2, THEN mp, OF h2]
  from c1 have r1: "snd (runIOS example_world ?a1) = Inr ()" by blast
  from c1 obtain t1 where "fst (runIOS example_world ?a1) = t1 @
      [LogError ''Could not find device with the udid: \"U9\". Choose one of the following:\<newline>Max Udid: U1\<newline>'']"
    unfolding v by (auto simp: example_device_def)
  then have l1: "last (fst (runIOS example_world ?a1)) =
       LogError ''Could not find device with the udid: \"U9\". Choose one of the following:\<newline>Max Udid: U1\<newline>''"
    by simp
  from c2 have r2: "snd (runIOS ?w2 ?a2) = Inr ()" by blast
  from c2 obtain t2 where "fst (runIOS ?w2 ?a2) = t2 @ [LogError ''No iOS devices connected.'']"
    by auto
  then have l2: "last (fst (runIOS ?w2 ?a2)) = LogError ''No iOS devices connected.''"
    by simp
  from r1 l1 r2 l2 show ?thesis by blast
qed

lemma buildProject_ignores_udid_flag:
  "buildProject w xcodeProject u scheme (args\<lparr>args_udid := v\<rparr>) = buildProject w xcodeProject u scheme args"
  by (simp add: buildProject_def getProcessOptions_def)

lemma runOnDevice_ignores_udid_flag:
  "runOnDevice w d scheme xcodeProject (args\<lparr>args_udid := v\<rparr>) = runOnDevice w d scheme xcodeProject args"
  by (simp add: runOnDevice_def buildProject_ignores_udid_flag)

lemma runIOS_ignores_udid_flag:
  assumes "truthy (args_device args)"
  shows "runIOS w (args\<lparr>args_udid := v\<rparr>) = runIOS w args"
  using assms
  by (simp add: runIOS_def Let_def runOnDevice_ignores_udid_flag cong: option.case_cong if_cong)

lemma runIOS_by_name:
  "truthy (args_device args) \<longrightarrow>
     runIOS w (args\<lparr>args_udid := u\<rparr>) = runIOS w (args\<lparr>args_udid := Undefined\<rparr>)
     \<and> (projectPathExists w \<and> foundXcodeProject w = Some xcodeProject
          \<and> listedDevices w = Inr devices \<longrightarrow>
          (\<forall>d. snd (matchingDevice devices (args_device args)) = Some d \<longrightarrow>
             snd (runIOS w (args\<lparr>args_udid := u\<rparr>))
               = snd (runOnDevice w d (js_or (args_scheme args) (inferredSchemeName w)) xcodeProject args)
             \<and> (\<exists>t. fst (runIOS w (args\<lparr>args_udid := u\<rparr>))
                  = t @ fst (runOnDevice w d (js_or (args_scheme args) (inferredSchemeName w))
                               xcodeProject args)))
          \<and> (snd (matchingDevice devices (args_device args)) = None \<longrightarrow>
               snd (runIOS w (args\<lparr>args_udid := u\<rparr>)) = Inr ()
               \<and> (\<exists>t. fst (runIOS w (args\<lparr>args_udid := u\<rparr>))
                    = t @ [LogError
                        (if devices \<noteq> [] then deviceNotFoundMessage ''name'' (args_device args) devices
                         else ''No iOS devices connected.'')])))"
proof (intro impI conjI allI)
  assume t: "truthy (args_device args)"
  show "runIOS w (args\<lparr>args_udid := u\<rparr>) = runIOS w (args\<lparr>args_udid := Undefined\<rparr>)"
    by (simp add: runIOS_ignores_udid_flag [OF t])
next
  fix d
  assume t: "truthy (args_device args)"
    and run: "projectPathExists w \<and> foundXcodeProject w = Some xcodeProject \<and> listedDevices w = Inr devices"
    and m: "snd (matchingDevice devices (args_device args)) = Some d"
  from run have r: "projectPathExists w" "foundXcodeProject w = Some xcodeProject"
    "listedDevices w = Inr devices" by simp_all
  show "snd (runIOS w (args\<lparr>args_udid := u\<rparr>))
      = snd (runOnDevice w d (js_or (args_scheme args) (inferredSchemeName w)) xcodeProject args)"
    unfolding runIOS_ignores_udid_flag [OF t] runIOS_shape [OF r] using t m by (simp add: Let_def)
  have "fst (runIOS w (args\<lparr>args_udid := u\<rparr>)) =
      ([Chdir (args_projectPath args),
        LogInfo (''Found Xcode ''
          @ (if isWorkspace xcodeProject then ''workspace'' else ''project'')
          @ '' '' @ project_name xcodeProject),
        Exec ''xcrun'' [''instruments'', ''-s'']]
       @ fst (matchingDevice devices (args_device args)))
      @ fst (runOnDevice w d (js_or (args_scheme args) (inferredSchemeName w)) xcodeProject args)"
    unfolding runIOS_ignores_udid_flag [OF t] runIOS_shape [OF r] using t m by (simp add: Let_def)
  then show "\<exists>t. fst (runIOS w (args\<lparr>args_udid := u\<rparr>))
      = t @ fst (runOnDevice w d (js_or (args_scheme args) (inferredSchemeName w)) xcodeProject args)"
    by blast
next
  assume t: "truthy (args_device args)"
    and run: "projectPathExists w \<and> foundXcodeProject w = Some xcodeProject \<and> listedDevices w = Inr devices"
    and m: "snd (matchingDevice devices (args_device args)) = None"
  from run have r: "projectPathExists w" "foundXcodeProject w = Some xcodeProject"
    "listedDevices w = Inr devices" by simp_all
  show "snd (runIOS w (args\<lparr>args_udid := u\<rparr>)) = Inr ()"
    unfolding runIOS_ignores_udid_flag [OF t] runIOS_shape [OF r] using t m by (simp add: Let_def)
  have "fst (runIOS w (args\<lparr>args_udid := u\<rparr>)) =
      ([Chdir (args_projectPath args),
        LogInfo (''Found Xcode ''
          @ (if isWorkspace xcodeProject then ''workspace'' else ''project'')
          @ '' '' @ project_name xcodeProject),
        Exec ''xcrun'' [''instruments'', ''-s'']]
       @ fst (matchingDevice devices (args_device args)))
      @ [LogError
           (if devices \<noteq> [] then deviceNotFoundMessage ''name'' (args_device args) devices
            else ''No iOS devices connected.'')]"
    unfolding runIOS_ignores_udid_flag [OF t] runIOS_shape [OF r] using t m by (simp add: Let_def)
  then show "\<exists>t. fst (runIOS w (args\<lparr>args_udid := u\<rparr>))
      = t @ [LogError
           (if devices \<noteq> [] then deviceNotFoundMessage ''name'' (args_device args) devices
            else ''No iOS devices connected.'')]"
    by blast
qed

lemma runIOS_by_udid:
  "\<not> truthy (args_device args) \<and> truthy (args_udid args) \<and> projectPathExists w
   \<and> foundXcodeProject w = Some xcodeProject \<and> listedDevices w = Inr devices \<longrightarrow>
     (\<forall>d. matchingDeviceByUdid devices (args_udid args) = Some d \<longrightarrow>
        snd (runIOS w args)
          = snd (runOnDevice w d (js_or (args_scheme args) (inferredSchemeName w)) xcodeProject args)
        \<and> (\<exists>t. fst (runIOS w args)
             = t @ fst (runOnDevice w d (js_or (args_scheme args) (inferredSchemeName w))
                          xcodeProject args)))
     \<and> (matchingDeviceByUdid devices (args_udid args) = None \<longrightarrow>
          snd (runIOS w args) = Inr ()
          \<and> (\<exists>t. fst (runIOS w args)
               = t @ [LogError
                   (if devices \<noteq> [] then deviceNotFoundMessage ''udid'' (args_udid args) devices
                    else ''No iOS devices connected.'')]))"
proof (intro impI conjI allI)
  fix d
  assume h: "\<not> truthy (args_device args) \<and> truthy (args_udid args) \<and> projectPathExists w
   \<and> foundXcodeProject w = Some xcodeProject \<and> listedDevices w = Inr devices"
    and m: "matchingDeviceByUdid devices (args_udid args) = Some d"
  from h have r: "projectPathExists w" "foundXcodeProject w = Some xcodeProject"
    "listedDevices w = Inr devices" by simp_all
  from h have t: "\<not> truthy (args_device args)" "truthy (args_udid args)" by simp_all
  show "snd (runIOS w args)
      = snd (runOnDevice w d (js_or (args_scheme args) (inferredSchemeName w)) xcodeProject args)"
    unfolding runIOS_shape [OF r] using t m by (simp add: Let_def)
  have "fst (runIOS w args) =
      [Chdir (args_projectPath args),
       LogInfo (''Found Xcode ''
         @ (if isWorkspace xcodeProject then ''workspace'' else ''project'')
         @ '' '' @ project_name xcodeProject),
       Exec ''xcrun'' [''instruments'', ''-s'']]
      @ fst (runOnDevice w d (js_or (args_scheme args) (inferredSchemeName w)) xcodeProject args)"
    unfolding runIOS_shape [OF r] using t m by (simp add: Let_def)
  then show "\<exists>t. fst (runIOS w args)
      = t @ fst (runOnDevice w d (js_or (args_scheme args) (inferredSchemeName w)) xcodeProject args)"
    by blast
next
  assume h: "\<not> truthy (args_device args) \<and> truthy (args_udid args) \<and> projectPathExists w
   \<and> foundXcodeProject w = Some xcodeProject \<and> listedDevices w = Inr devices"
    and m: "matchingDeviceByUdid devices (args_udid args) = None"
  from h have r: "projectPathExists w" "foundXcodeProject w = Some xcodeProject"
    "listedDevices w = Inr devices" by simp_all
  from h have t: "\<not> truthy (args_device args)" "truthy (args_udid args)" by simp_all
  show "snd (runIOS w args) = Inr ()"
    unfolding runIOS_shape [OF r] using t m by (simp add: Let_def)
  have "fst (runIOS w args) =
      [Chdir (args_projectPath args),
       LogInfo (''Found Xcode ''
         @ (if isWorkspace xcodeProject then ''workspace'' else ''project'')
         @ '' '' @ project_name xcodeProject),
       Exec ''xcrun'' [''instruments'', ''-s'']]
      @ [LogError
           (if devices \<noteq> [] then deviceNotFoundMessage ''udid'' (args_udid args) devices
            else ''No iOS devices connected.'')]"
    unfolding runIOS_shape [OF r] using t m by (simp add: Let_def)
  then show "\<exists>t. fst (runIOS w args)
      = t @ [LogError
           (if devices \<noteq> [] then deviceNotFoundMessage ''udid'' (args_udid args) devices
            else ''No iOS devices connected.'')]"
    by blast
qed

text \<open>
  Claim C10, as the code has it.  The command tests the device flag for truthiness.  When the
  flag is the bare flag or a non-empty name, the udid flag has no effect: the run is, action
  for action and in its result, the run with the udid flag left out, the device that
  \<open>matchingDevice\<close> returns for the name is the one built for and deployed to, and when it
  returns none the diagnostic is the one for names.  An empty name is falsy and counts as
  not given: with a udid beside it, matching is by udid, and so is the diagnostic.
\<close>

theorem device_name_overrides_udid:
  "(truthy (args_device args) \<longrightarrow>
     runIOS w (args\<lparr>args_udid := u\<rparr>) = runIOS w (args\<lparr>args_udid := Undefined\<rparr>)
     \<and> (projectPathExists w \<and> foundXcodeProject w = Some xcodeProject
          \<and> listedDevices w = Inr devices \<longrightarrow>
          (\<forall>d. snd (matchingDevice devices (args_device args)) = Some d \<longrightarrow>
             snd (runIOS w (args\<lparr>args_udid := u\<rparr>))
               = snd (runOnDevice w d (js_or (args_scheme args) (inferredSchemeName w)) xcodeProject args)
             \<and> (\<exists>t. fst (runIOS w (args\<lparr>args_udid := u\<rparr>))
                  = t @ fst (runOnDevice w d (js_or (args_scheme args) (inferredSchemeName w))
                               xcodeProject args)))
          \<and> (snd (matchingDevice devices (args_device args)) = None \<longrightarrow>
               snd (runIOS w (args\<lparr>args_udid := u\<rparr>)) = Inr ()
               \<and> (\<exists>t. fst (runIOS w (args\<lparr>args_udid := u\<rparr>))
                    = t @ [LogError
                        (if devices \<noteq> [] then deviceNotFoundMessage ''name'' (args_device args) devices
                         else ''No iOS devices connected.'')]))))
   \<and> (\<not> truthy (args_device args) \<and> truthy (args_udid args) \<and> projectPathExists w
        \<and> foundXcodeProject w = Some xcodeProject \<and> listedDevices w = Inr devices \<longrightarrow>
        (\<forall>d. matchingDeviceByUdid devices (args_udid args) = Some d \<longrightarrow>
           snd (runIOS w args)
             = snd (runOnDevice w d (js_or (args_scheme args) (inferredSchemeName w)) xcodeProject args)
           \<and> (\<exists>t. fst (runIOS w args)
                = t @ fst (runOnDevice w d (js_or (args_scheme args) (inferredSchemeName w))
                             xcodeProject args)))
        \<and> (matchingDeviceByUdid devices (args_udid args) = None \<longrightarrow>
             snd (runIOS w args) = Inr ()
             \<and> (\<exists>t. fst (runIOS w args)
                  = t @ [LogError
                      (if devices \<noteq> [] then deviceNotFoundMessage ''udid'' (args_udid args) devices
                       else ''No iOS devices connected.'')])))"
  using runIOS_by_name [of args w u xcodeProject devices] runIOS_by_udid [of args w xcodeProject devices]
  by (rule conjI)

theorem device_name_overrides_udid_witness:
  "truthy (args_device (example_flags\<lparr>args_device := JString ''Max''\<rparr>))
   \<and> runIOS example_world (example_flags\<lparr>args_device := JString ''Max'', args_udid := JString ''U9''\<rparr>)
       = runIOS example_world (example_flags\<lparr>args_device := JString ''Max'', args_udid := Undefined\<rparr>)
   \<and> snd (runIOS example_world (example_flags\<lparr>args_device := JString ''Max'', args_udid := JString ''U9''\<rparr>))
       = Inr ()
   \<and> LogInfo ''** INSTALLATION SUCCEEDED **''
       \<in> set (fst (runIOS example_world
                     (example_flags\<lparr>args_device := JString ''Max'', args_udid := JString ''U9''\<rparr>)))
   \<and> \<not> truthy (args_device (example_flags\<lparr>args_device := JString [], args_udid := JString ''U9''\<rparr>))
   \<and> truthy (args_udid (example_flags\<lparr>args_device := JString [], args_udid := JString ''U9''\<rparr>))
   \<and> matchingDeviceByUdid [example_device] (JString ''U9'') = None
   \<and> snd (runIOS example_world (example_flags\<lparr>args_device := JString [], args_udid := JString ''U9''\<rparr>))
       = Inr ()
   \<and> last (fst (runIOS example_world (example_flags\<lparr>args_device := JString [], args_udid := JString ''U9''\<rparr>)))
       = LogError (deviceNotFoundMessage ''udid'' (JString ''U9'') [example_device])"
proof -
  let ?a = "example_flags\<lparr>args_device := JString ''Max''\<rparr>"
  let ?b = "example_flags\<lparr>args_device := JString [], args_udid := JString ''U9''\<rparr>"
  have t: "truthy (args_device ?a)" by simp
  have e: "snd (runIOS example_world (?a\<lparr>args_udid := Undefined\<rparr>)) = Inr ()"
    "LogInfo ''** INSTALLATION SUCCEEDED **'' \<in> set (fst (runIOS example_world (?a\<lparr>args_udid := Undefined\<rparr>)))"
    by code_simp+
  from device_name_overrides_udid
    [where args = "?a" and w = example_world and u = "JString ''U9''"
      and xcodeProject = example_project and devices = "[example_device]"] t
  have n: "runIOS example_world (?a\<lparr>args_udid := JString ''U9''\<rparr>)
      = runIOS example_world (?a\<lparr>args_udid := Undefined\<rparr>)" by blast
  have h: "\<not> truthy (args_device ?b)" "truthy (args_udid ?b)" "args_udid ?b = JString ''U9''"
    "projectPathExists example_world" "foundXcodeProject example_world = Some example_project"
    "listedDevices example_world = Inr [example_device]"
    by (simp_all add: example_world_def)
  have m: "matchingDeviceByUdid [example_device] (JString ''U9'') = None"
    by code_simp
  from device_name_overrides_udid
    [where args = "?b" and w = example_world and u = Undefined
      and xcodeProject = example_project and devices = "[example_device]"] h m
  have u1: "snd (runIOS example_world ?b) = Inr ()"
    and "\<exists>t. fst (runIOS example_world ?b)
        = t @ [LogError (deviceNotFoundMessage ''udid'' (JString ''U9'') [example_device])]"
    by auto
  then have u2: "last (fst (runIOS example_world ?b))
      = LogError (deviceNotFoundMessage ''udid'' (JString ''U9'') [example_device])"
    by auto
  from t n e h(1,2) m u1 u2 show ?thesis by simp
qed

text \<open>
  An empty device name beside a udid.  By name nothing matches, yet the run deploys to the
  device with that udid; with another udid the run differs, and its diagnostic is the one for
  udids.
\<close>

theorem empty_device_name_matches_by_udid:
  "snd (matchingDevice [example_device] (JString [])) = None
   \<and> matchingDeviceByUdid [example_device] (JString ''U1'') = Some example_device
   \<and> snd (runIOS example_world (example_flags\<lparr>args_device := JString [], args_udid := JString ''U1''\<rparr>))
       = Inr ()
   \<and> Exec ''ios-deploy''
         [''--bundle'', ''build/MyApp/Build/Products/Debug-iphoneos/MyApp.app'',
          ''--id'', ''U1'', ''--justlaunch'']
       \<in> set (fst (runIOS example_world
                     (example_flags\<lparr>args_device := JString [], args_udid := JString ''U1''\<rparr>)))
   \<and> runIOS example_world (example_flags\<lparr>args_device := JString [], args_udid := JString ''U1''\<rparr>)
       \<noteq> runIOS example_world (example_flags\<lparr>args_device := JString [], args_udid := JString ''U9''\<rparr>)
   \<and> last (fst (runIOS example_world
                     (example_flags\<lparr>args_device := JString [], args_udid := JString ''U9''\<rparr>)))
       = LogError ''Could not find device with the udid: \"U9\". Choose one of the following:\<newline>Max Udid: U1\<newline>''"
  by code_simp

section \<open>Booting the simulator\<close>

lemma bootSimulator_ignores_result:
  "bootSimulator (w\<lparr>bootResult := r\<rparr>) sim = bootSimulator w sim"
  by (simp add: bootSimulator_eq)

lemma buildProject_ignores_bootResult:
  "buildProject (w\<lparr>bootResult := r\<rparr>) xcodeProject u scheme args = buildProject w xcodeProject u scheme args"
  by (simp add: buildProject_def xcprettyAvailable_def)

lemma runOnSimulator_ignores_bootResult:
  "runOnSimulator (w\<lparr>bootResult := r\<rparr>) xcodeProject scheme args = runOnSimulator w xcodeProject scheme args"
  by (simp add: runOnSimulator_def bootSimulator_ignores_result buildProject_ignores_bootResult
        cong: option.case_cong if_cong)

text \<open>
  Claim C8, as the code has it.  Whatever the boot-trigger subprocess does (it throws, it
  cannot be started, it exits with any status), \<open>bootSimulator\<close> returns normally and logs no
  error, and the run on the virtual path is the same, action for action and in its result,
  as with any other outcome of the boot tool; once the simulator was found and opened it
  goes on to start the build.  The wrapper masks every failure of the boot tool, not one
  failure mode only.
\<close>

theorem boot_failure_swallowed:
  "snd (bootSimulator (w\<lparr>bootResult := r\<rparr>) sim) = Inr ()
   \<and> (\<forall>a \<in> set (fst (bootSimulator (w\<lparr>bootResult := r\<rparr>) sim)). \<not> is_error_log a)
   \<and> runOnSimulator (w\<lparr>bootResult := r\<rparr>) xcodeProject scheme args
       = runOnSimulator w xcodeProject scheme args
   \<and> (simulatorListParses w \<and> matchedSimulator w = Some sim \<and> xcodeSelectOutput w = Inr out
        \<and> openSimulatorApp w = Inr out' \<longrightarrow>
        (\<exists>a \<in> set (fst (runOnSimulator (w\<lparr>bootResult := r\<rparr>) xcodeProject scheme args)).
           is_build_step a))"
proof -
  have 1: "snd (bootSimulator (w\<lparr>bootResult := r\<rparr>) sim) = Inr ()"
    by (simp add: bootSimulator_eq)
  have 2: "\<forall>a \<in> set (fst (bootSimulator (w\<lparr>bootResult := r\<rparr>) sim)). \<not> is_error_log a"
    by (simp add: bootSimulator_eq is_error_log_def)
  have 3: "runOnSimulator (w\<lparr>bootResult := r\<rparr>) xcodeProject scheme args
       = runOnSimulator w xcodeProject scheme args"
    by (rule runOnSimulator_ignores_bootResult)
  have 4: "\<exists>a \<in> set (fst (runOnSimulator (w\<lparr>bootResult := r\<rparr>) xcodeProject scheme args)).
           is_build_step a"
    if pre: "simulatorListParses w" "matchedSimulator w = Some sim" "xcodeSelectOutput w = Inr out"
      "openSimulatorApp w = Inr out'"
  proof -
    from buildProject_has_build [of w xcodeProject "udid sim" scheme args]
    obtain a where a: "a \<in> set (fst (buildProject w xcodeProject (udid sim) scheme args))"
      "is_build_step a" by blast
    have "a \<in> set (fst (runOnSimulator w xcodeProject scheme args))"
      unfolding runOnSimulator_shape [OF pre] using a(1)
      by (simp add: Let_def split: sum.splits)
    with a(2) show ?thesis unfolding 3 by blast
  qed
  from 1 2 3 4 show ?thesis by blast
qed

theorem boot_failure_swallowed_witness:
  "snd (bootSimulator (example_world\<lparr>bootResult := Inr \<lparr>spawn_error = None, spawn_status = Some 255\<rparr>\<rparr>)
          example_simulator) = Inr ()
   \<and> simulatorListParses example_world
   \<and> matchedSimulator example_world = Some example_simulator
   \<and> list_ex is_build_step
        (fst (runOnSimulator (example_world\<lparr>bootResult := Inl (Thrown ''spawnSync failed'')\<rparr>)
                example_project ''MyApp'' example_flags))
   \<and> runOnSimulator (example_world\<lparr>bootResult := Inl (Thrown ''spawnSync failed'')\<rparr>)
        example_project ''MyApp'' example_flags
       = runOnSimulator example_world example_project ''MyApp'' example_flags"
proof -
  have pre: "simulatorListParses example_world \<and> matchedSimulator example_world = Some example_simulator
      \<and> xcodeSelectOutput example_world = Inr ''/Applications/Xcode.app/Contents/Developer\<newline>''
      \<and> openSimulatorApp example_world = Inr []"
    by (simp add: example_world_def)
  from boot_failure_swallowed
    [where w = example_world and r = "Inr \<lparr>spawn_error = None, spawn_status = Some 255\<rparr>"
      and sim = example_simulator and xcodeProject = example_project and scheme = "''MyApp''"
      and args = example_flags]
  have a: "snd (bootSimulator (example_world\<lparr>bootResult := Inr \<lparr>spawn_error = None, spawn_status = Some 255\<rparr>\<rparr>)
          example_simulator) = Inr ()" by blast
  from boot_failure_swallowed
    [where w = example_world and r = "Inl (Thrown ''spawnSync failed'')"
      and sim = example_simulator and xcodeProject = example_project and scheme = "''MyApp''"
      and args = example_flags and out = "''/Applications/Xcode.app/Contents/Developer\<newline>''"
      and out' = "[]"] pre
  have b: "\<exists>a \<in> set (fst (runOnSimulator (example_world\<lparr>bootResult := Inl (Thrown ''spawnSync failed'')\<rparr>)
                example_project ''MyApp'' example_flags)). is_build_step a"
    and c: "runOnSimulator (example_world\<lparr>bootResult := Inl (Thrown ''spawnSync failed'')\<rparr>)
        example_project ''MyApp'' example_flags
       = runOnSimulator example_world example_project ''MyApp'' example_flags"
    by blast+
  from a b c pre show ?thesis by (simp add: list_ex_iff)
qed

text \<open>
  The boot tool's failure to start at all, and an exception thrown by \<open>spawnSync\<close>, are
  failures other than the known exit with 255.  The wrapper returns normally on both, and the
  run completes without a line on the error log.
\<close>

theorem boot_wrapper_masks_other_failures:
  "snd (bootSimulator
          (example_world\<lparr>bootResult := Inr \<lparr>spawn_error = Some ''spawnSync xcrun ENOENT'', spawn_status = None\<rparr>\<rparr>)
          example_simulator) = Inr ()
   \<and> snd (bootSimulator (example_world\<lparr>bootResult := Inl (Thrown ''TypeError'')\<rparr>) example_simulator)
       = Inr ()
   \<and> snd (runOnSimulator
          (example_world\<lparr>bootResult := Inr \<lparr>spawn_error = Some ''spawnSync xcrun ENOENT'', spawn_status = None\<rparr>\<rparr>)
          example_project ''MyApp'' example_flags) = Inr ()
   \<and> list_all (\<lambda>a. \<not> is_error_log a)
        (fst (runOnSimulator
          (example_world\<lparr>bootResult := Inr \<lparr>spawn_error = Some ''spawnSync xcrun ENOENT'', spawn_status = None\<rparr>\<rparr>)
          example_project ''MyApp'' example_flags))"
  by code_simp

section \<open>After the build\<close>

text \<open>
  Claim C9, as the code has it.  After a build that exits with 0, a failure that an install or
  launch subprocess reports (it could not be started, or it exited with a status other than 0)
  neither raises nor stops a later step.  On the physical path the run returns normally
  whatever \<open>ios-deploy\<close> reports, and a failure to start it is logged with the hint to install
  it.  On the virtual path, whatever \<open>simctl install\<close> and \<open>simctl launch\<close> report, the run
  returns normally after install, the read of the bundle identifier and launch, in this
  order, as long as that read returns.
\<close>

theorem post_build_failures_do_not_abort:
  "buildExitCode w = Some 0 \<longrightarrow>
     (iosDeployResult w = Inr r \<longrightarrow>
        snd (runOnDevice w d scheme xcodeProject args) = Inr ()
        \<and> (spawn_error r \<noteq> None \<longrightarrow>
             LogError (''** INSTALLATION FAILED **\<newline>Make sure you have ios-deploy installed globally.\<newline>''
                       @ ''(e.g \"npm install -g ios-deploy\")'')
               \<in> set (fst (runOnDevice w d scheme xcodeProject args))))
     \<and> (simulatorListParses w \<and> matchedSimulator w = Some sim \<and> xcodeSelectOutput w = Inr out
          \<and> openSimulatorApp w = Inr out' \<and> installResult w = Inr installed
          \<and> bundleIDOutput w = Inr plist \<and> launchResult w = Inr launched \<longrightarrow>
          snd (runOnSimulator w xcodeProject scheme args) = Inr ()
          \<and> (\<exists>t appPath. fst (runOnSimulator w xcodeProject scheme args) =
                 t @ [Exec ''xcrun'' [''simctl'', ''install'', udid sim, appPath],
                      Exec ''/usr/libexec/PlistBuddy''
                        [''-c'', ''Print:CFBundleIdentifier'', pathJoin w appPath ''Info.plist''],
                      LogInfo (''Launching '' @ trim plist),
                      Exec ''xcrun'' [''simctl'', ''launch'', udid sim, trim plist]]))"
proof (intro impI conjI)
  assume ok: "buildExitCode w = Some 0" and dep: "iosDeployResult w = Inr r"
  show "snd (runOnDevice w d scheme xcodeProject args) = Inr ()"
    unfolding runOnDevice_shape using ok dep by (simp add: buildProject_snd Let_def)
next
  assume ok: "buildExitCode w = Some 0" and dep: "iosDeployResult w = Inr r"
    and err: "spawn_error r \<noteq> None"
  show "LogError (''** INSTALLATION FAILED **\<newline>Make sure you have ios-deploy installed globally.\<newline>''
                  @ ''(e.g \"npm install -g ios-deploy\")'')
          \<in> set (fst (runOnDevice w d scheme xcodeProject args))"
    unfolding runOnDevice_shape using ok dep err by (simp add: buildProject_snd Let_def)
next
  assume ok: "buildExitCode w = Some 0"
    and h: "simulatorListParses w \<and> matchedSimulator w = Some sim \<and> xcodeSelectOutput w = Inr out
          \<and> openSimulatorApp w = Inr out' \<and> installResult w = Inr installed
          \<and> bundleIDOutput w = Inr plist \<and> launchResult w = Inr launched"
  then have pre: "simulatorListParses w" "matchedSimulator w = Some sim"
    "xcodeSelectOutput w = Inr out" "openSimulatorApp w = Inr out'" by simp_all
  show "snd (runOnSimulator w xcodeProject scheme args) = Inr ()"
    unfolding runOnSimulator_shape [OF pre] using ok h by (simp add: buildProject_snd Let_def)
next
  assume ok: "buildExitCode w = Some 0"
    and h: "simulatorListParses w \<and> matchedSimulator w = Some sim \<and> xcodeSelectOutput w = Inr out
          \<and> openSimulatorApp w = Inr out' \<and> installResult w = Inr installed
          \<and> bundleIDOutput w = Inr plist \<and> launchResult w = Inr launched"
  then have pre: "simulatorListParses w" "matchedSimulator w = Some sim"
    "xcodeSelectOutput w = Inr out" "openSimulatorApp w = Inr out'" by simp_all
  define appName where "appName = js_or (getProductName (concat (buildStdout w))) scheme"
  define appPath where "appPath = getBuildPath (args_configuration args) appName False scheme"
  define t where "t =
      [Exec ''xcrun'' [''simctl'', ''list'', ''--json'', ''devices''],
       Exec ''xcode-select'' [''-p''],
       Exec ''open'' [trim out @ ''/Applications/Simulator.app'', ''--args'',
                      ''-CurrentDeviceUDID'', udid sim]]
      @ (if \<not> booted sim then fst (bootSimulator w sim) else [])
      @ fst (buildProject w xcodeProject (udid sim) scheme args)
      @ [LogInfo (''Installing '' @ appPath)]"
  have "fst (runOnSimulator w xcodeProject scheme args) =
      t @ [Exec ''xcrun'' [''simctl'', ''install'', udid sim, appPath],
           Exec ''/usr/libexec/PlistBuddy''
             [''-c'', ''Print:CFBundleIdentifier'', pathJoin w appPath ''Info.plist''],
           LogInfo (''Launching '' @ trim plist),
           Exec ''xcrun'' [''simctl'', ''launch'', udid sim, trim plist]]"
    unfolding runOnSimulator_shape [OF pre] using ok h
    by (simp add: buildProject_snd Let_def t_def appPath_def appName_def)
  then show "\<exists>t appPath. fst (runOnSimulator w xcodeProject scheme args) =
      t @ [Exec ''xcrun'' [''simctl'', ''install'', udid sim, appPath],
           Exec ''/usr/libexec/PlistBuddy''
             [''-c'', ''Print:CFBundleIdentifier'', pathJoin w appPath ''Info.plist''],
           LogInfo (''Launching '' @ trim plist),
           Exec ''xcrun'' [''simctl'', ''launch'', udid sim, trim plist]]"
    by blast
qed

theorem post_build_failures_do_not_abort_witness:
  "buildExitCode example_world = Some 0
   \<and> spawn_failed \<lparr>spawn_error = Some ''spawnSync ios-deploy ENOENT'', spawn_status = None\<rparr>
   \<and> snd (runOnDevice
            (example_world\<lparr>iosDeployResult :=
               Inr \<lparr>spawn_error = Some ''spawnSync ios-deploy ENOENT'', spawn_status = None\<rparr>\<rparr>)
            example_device ''MyApp'' example_project example_flags) = Inr ()
   \<and> list_ex is_error_log
        (fst (runOnDevice
            (example_world\<lparr>iosDeployResult :=
               Inr \<lparr>spawn_error = Some ''spawnSync ios-deploy ENOENT'', spawn_status = None\<rparr>\<rparr>)
            example_device ''MyApp'' example_project example_flags))
   \<and> spawn_failed \<lparr>spawn_error = None, spawn_status = Some 1\<rparr>
   \<and> snd (runOnSimulator
            (example_world\<lparr>installResult := Inr \<lparr>spawn_error = None, spawn_status = Some 1\<rparr>,
                           launchResult := Inr \<lparr>spawn_error = None, spawn_status = Some 1\<rparr>\<rparr>)
            example_project ''MyApp'' example_flags) = Inr ()
   \<and> last (fst (runOnSimulator
            (example_world\<lparr>installResult := Inr \<lparr>spawn_error = None, spawn_status = Some 1\<rparr>,
                           launchResult := Inr \<lparr>spawn_error = None, spawn_status = Some 1\<rparr>\<rparr>)
            example_project ''MyApp'' example_flags))
       = Exec ''xcrun'' [''simctl'', ''launch'', ''S1'', ''org.example.MyApp'']"
proof -
  let ?wd = "example_world\<lparr>iosDeployResult :=
               Inr \<lparr>spawn_error = Some ''spawnSync ios-deploy ENOENT'', spawn_status = None\<rparr>\<rparr>"
  let ?ws = "example_world\<lparr>installResult := Inr \<lparr>spawn_error = None, spawn_status = Some 1\<rparr>,
                           launchResult := Inr \<lparr>spawn_error = None, spawn_status = Some 1\<rparr>\<rparr>"
  have c: "buildExitCode example_world = Some 0" "buildExitCode ?wd = Some 0" "buildExitCode ?ws = Some 0"
    "iosDeployResult ?wd = Inr \<lparr>spawn_error = Some ''spawnSync ios-deploy ENOENT'', spawn_status = None\<rparr>"
    by (simp_all add: example_world_def)
  have pre: "simulatorListParses ?ws \<and> matchedSimulator ?ws = Some example_simulator
      \<and> xcodeSelectOutput ?ws = Inr ''/Applications/Xcode.app/Contents/Developer\<newline>''
      \<and> openSimulatorApp ?ws = Inr []
      \<and> installResult ?ws = Inr \<lparr>spawn_error = None, spawn_status = Some 1\<rparr>
      \<and> bundleIDOutput ?ws = Inr ''org.example.MyApp\<newline>''
      \<and> launchResult ?ws = Inr \<lparr>spawn_error = None, spawn_status = Some 1\<rparr>"
    by (simp add: example_world_def)
  have f: "spawn_failed \<lparr>spawn_error = Some ''spawnSync ios-deploy ENOENT'', spawn_status = None\<rparr>"
    "spawn_failed \<lparr>spawn_error = None, spawn_status = Some 1\<rparr>"
    by (simp_all add: spawn_failed_def)
  have tr: "trim ''org.example.MyApp\<newline>'' = ''org.example.MyApp''"
    by code_simp
  note dres = post_build_failures_do_not_abort
    [where w = "?wd" and d = example_device and scheme = "''MyApp''" and xcodeProject = example_project
      and args = example_flags
      and r = "\<lparr>spawn_error = Some ''spawnSync ios-deploy ENOENT'', spawn_status = None\<rparr>"]
  from dres c have d1: "snd (runOnDevice ?wd example_device ''MyApp'' example_project example_flags) = Inr ()"
    by blast
  from dres c have "LogError (''** INSTALLATION FAILED **\<newline>Make sure you have ios-deploy installed globally.\<newline>''
                 @ ''(e.g \"npm install -g ios-deploy\")'')
      \<in> set (fst (runOnDevice ?wd example_device ''MyApp'' example_project example_flags))"
    by simp
  then have d2: "list_ex is_error_log
      (fst (runOnDevice ?wd example_device ''MyApp'' example_project example_flags))"
    unfolding list_ex_iff by (rule bexI [rotated]) (simp add: is_error_log_def)
  note sres = post_build_failures_do_not_abort
    [where w = "?ws" and sim = example_simulator and scheme = "''MyApp''" and xcodeProject = example_project
      and args = example_flags and out = "''/Applications/Xcode.app/Contents/Developer\<newline>''"
      and out' = "[]" and installed = "\<lparr>spawn_error = None, spawn_status = Some 1\<rparr>"
      and launched = "\<lparr>spawn_error = None, spawn_status = Some 1\<rparr>"
      and plist = "''org.example.MyApp\<newline>''"]
  from sres c pre have s1: "snd (runOnSimulator ?ws example_project ''MyApp'' example_flags) = Inr ()"
    by blast
  from sres c pre obtain t appPath where
    "fst (runOnSimulator ?ws example_project ''MyApp'' example_flags) =
       t @ [Exec ''xcrun'' [''simctl'', ''install'', udid example_simulator, appPath],
            Exec ''/usr/libexec/PlistBuddy''
              [''-c'', ''Print:CFBundleIdentifier'', pathJoin ?ws appPath ''Info.plist''],
            LogInfo (''Launching '' @ trim ''org.example.MyApp\<newline>''),
            Exec ''xcrun'' [''simctl'', ''launch'', udid example_simulator, trim ''org.example.MyApp\<newline>'']]"
    by blast
  then have s2: "last (fst (runOnSimulator ?ws example_project ''MyApp'' example_flags))
       = Exec ''xcrun'' [''simctl'', ''launch'', ''S1'', ''org.example.MyApp'']"
    by (simp add: tr example_simulator_def)
  from c(1) f d1 d2 s1 s2 show ?thesis by blast
qed

text \<open>
  Three runs after a successful build.  \<open>ios-deploy\<close> exits with status 1 and the run logs
  that the installation succeeded, with nothing on the error log.  \<open>simctl install\<close> and
  \<open>simctl launch\<close> exit with status 1 and the run logs no error either.  The read of the bundle
  identifier throws, and the run ends with that error before the launch.
\<close>

theorem post_build_failures_not_all_reported:
  "buildExitCode example_world = Some 0
   \<and> spawn_failed \<lparr>spawn_error = None, spawn_status = Some 1\<rparr>
   \<and> list_all (\<lambda>a. \<not> is_error_log a)
        (fst (runOnDevice
           (example_world\<lparr>iosDeployResult := Inr \<lparr>spawn_error = None, spawn_status = Some 1\<rparr>\<rparr>)
           example_device ''MyApp'' example_project example_flags))
   \<and> last (fst (runOnDevice
           (example_world\<lparr>iosDeployResult := Inr \<lparr>spawn_error = None, spawn_status = Some 1\<rparr>\<rparr>)
           example_device ''MyApp'' example_project example_flags))
       = LogInfo ''** INSTALLATION SUCCEEDED **''
   \<and> list_all (\<lambda>a. \<not> is_error_log a)
        (fst (runOnSimulator
           (example_world\<lparr>installResult := Inr \<lparr>spawn_error = None, spawn_status = Some 1\<rparr>,
                          launchResult := Inr \<lparr>spawn_error = None, spawn_status = Some 1\<rparr>\<rparr>)
           example_project ''MyApp'' example_flags))
   \<and> snd (runOnSimulator
           (example_world\<lparr>bundleIDOutput := Inl (Thrown ''Command failed: /usr/libexec/PlistBuddy'')\<rparr>)
           example_project ''MyApp'' example_flags)
       = Inl (Thrown ''Command failed: /usr/libexec/PlistBuddy'')
   \<and> last (fst (runOnSimulator
           (example_world\<lparr>bundleIDOutput := Inl (Thrown ''Command failed: /usr/libexec/PlistBuddy'')\<rparr>)
           example_project ''MyApp'' example_flags))
       = Exec ''/usr/libexec/PlistBuddy''
           [''-c'', ''Print:CFBundleIdentifier'',
            ''build/MyApp/Build/Products/Debug-iphonesimulator/MyApp.app/Info.plist'']"
  by code_simp

end
